theory Spec2Isabelle
  imports Complex_Main
begin

section \<open>Array primitives of the workflows\<close>

text \<open>
  The two workflows \<^verbatim>\<open>ctag_eWc_valid_sf.py\<close> and \<^verbatim>\<open>ttdilep_valid_sf.py\<close> are written
  over columnar arrays.  A column is a list with one entry per event, a jagged column a
  list of lists, and an entry that may be missing is an \<open>option\<close>.  Numbers are exact
  reals: rounding of floating point arithmetic is not part of the model.
\<close>

type_synonym obj = "string \<Rightarrow> real"

text \<open>Elementwise operators on option-typed columns: a missing operand gives a missing result.\<close>

definition ak_lift2 :: "('a \<Rightarrow> 'b \<Rightarrow> 'c) \<Rightarrow> 'a option \<Rightarrow> 'b option \<Rightarrow> 'c option" where
  "ak_lift2 f a b = (case a of None \<Rightarrow> None | Some x \<Rightarrow> (case b of None \<Rightarrow> None | Some y \<Rightarrow> Some (f x y)))"

definition ak_and :: "bool option list \<Rightarrow> bool option list \<Rightarrow> bool option list" where
  "ak_and xs ys = map2 (ak_lift2 (\<and>)) xs ys"

definition ak_fill_none :: "'a option list \<Rightarrow> 'a \<Rightarrow> 'a list" where
  "ak_fill_none xs d = map (\<lambda>x. case x of None \<Rightarrow> d | Some v \<Rightarrow> v) xs"

text \<open>\<^verbatim>\<open>ak.count(coll.pt, axis=1)\<close> counts the entries that are not missing,
  \<^verbatim>\<open>ak.num\<close> counts all of them.\<close>

definition ak_count :: "'a option list \<Rightarrow> nat" where
  "ak_count xs = length (filter (\<lambda>x. x \<noteq> None) xs)"

definition ak_pad_none :: "'a option list \<Rightarrow> nat \<Rightarrow> 'a option list" where
  "ak_pad_none xs n = xs @ replicate (n - length xs) None"

definition ak_firsts :: "'a option list \<Rightarrow> 'a option" where
  "ak_firsts xs = (case xs of [] \<Rightarrow> None | x # _ \<Rightarrow> x)"

text \<open>\<^verbatim>\<open>ak.all(..., axis=2)\<close>: a reducer skips missing entries.\<close>

definition ak_all :: "bool option list \<Rightarrow> bool" where
  "ak_all xs = list_all (\<lambda>x. x \<noteq> Some False) xs"

text \<open>\<^verbatim>\<open>coll[mask]\<close> inside one event, for a collection whose entries may be missing: the
  mask of a missing entry is missing, and a missing mask keeps a missing entry.\<close>

definition ak_where :: "(obj \<Rightarrow> bool) \<Rightarrow> obj option list \<Rightarrow> obj option list" where
  "ak_where p xs = filter (\<lambda>x. case x of None \<Rightarrow> True | Some v \<Rightarrow> p v) xs"

text \<open>\<^verbatim>\<open>column[event_level]\<close>: the entries of the events whose mask is True.\<close>

definition ak_mask :: "bool list \<Rightarrow> 'a list \<Rightarrow> 'a list" where
  "ak_mask m xs = map snd (filter fst (zip m xs))"

text \<open>\<^verbatim>\<open>ak.broadcast_arrays(w, jagged)[0]\<close>: the per-event value repeated once for
  every entry of that event's list.\<close>

definition ak_broadcast :: "'w list \<Rightarrow> 'a list list \<Rightarrow> 'w list list" where
  "ak_broadcast ws xss = map2 (\<lambda>w xs. map (\<lambda>_. w) xs) ws xss"

text \<open>
  The helper \<^verbatim>\<open>flatten\<close> of \<^verbatim>\<open>helpers.func\<close> is \<^verbatim>\<open>ak.flatten(ar, axis=None)\<close>: it
  removes all nesting and drops the missing entries.  Nesting is removed by \<open>concat\<close>;
  \<open>flatten\<close> drops the missing entries of the resulting column.
\<close>

definition flatten :: "'a option list \<Rightarrow> 'a list" where
  "flatten xs = List.map_filter (\<lambda>x. x) xs"


text \<open>\<^verbatim>\<open>column[:, i]\<close> of a jagged column raises when one of the lists is too short.\<close>

datatype error = ValueError "string list" string | IndexError

definition ak_col :: "nat \<Rightarrow> 'a list list \<Rightarrow> error + 'a list" where
  "ak_col i xss = (if list_all (\<lambda>xs. i < length xs) xss then Inr (map (\<lambda>xs. xs ! i) xss) else Inl IndexError)"

subsection \<open>Strings: \<^verbatim>\<open>sub in name\<close> and \<^verbatim>\<open>name.replace(old, new)\<close>\<close>

fun starts_with :: "string \<Rightarrow> string \<Rightarrow> bool" where
  "starts_with [] s = True"
| "starts_with (a # as) [] = False"
| "starts_with (a # as) (c # cs) = (a = c \<and> starts_with as cs)"

fun contains :: "string \<Rightarrow> string \<Rightarrow> bool" where
  "contains sub [] = (sub = [])"
| "contains sub (c # cs) = (starts_with sub (c # cs) \<or> contains sub cs)"

text \<open>The counter is the number of characters of a match still to be skipped.\<close>

fun replace_aux :: "string \<Rightarrow> string \<Rightarrow> nat \<Rightarrow> string \<Rightarrow> string" where
  "replace_aux old new k [] = []"
| "replace_aux old new k (c # cs) =
     (if 0 < k then replace_aux old new (k - 1) cs
      else if starts_with old (c # cs) then new @ replace_aux old new (length old - 1) cs
      else c # replace_aux old new 0 cs)"

definition replace :: "string \<Rightarrow> string \<Rightarrow> string \<Rightarrow> string" where
  "replace old new s = (if old = [] then new @ concat (map (\<lambda>c. c # new) s) else replace_aux old new 0 s)"

text \<open>\<^verbatim>\<open>str(i)\<close> for the two indices of \<^verbatim>\<open>range(2)\<close>.\<close>

definition str :: "nat \<Rightarrow> string" where
  "str i = (if i = 0 then ''0'' else ''1'')"

section \<open>Data model\<close>

text \<open>
  An event of a NanoAOD batch.  A particle is a record of named numeric fields; the
  lepton collections are option-typed because \<^verbatim>\<open>ak.pad_none\<close> stores padded collections
  back into them.  The batch is taken as it is after \<^verbatim>\<open>missing_branch\<close> and
  \<^verbatim>\<open>add_jec\<close>, the repair and jet-energy collaborators.
\<close>

record event =
  run :: nat
  luminosityBlock :: nat
  genWeight :: real
  nPU :: real
  HLT :: "string \<Rightarrow> bool"
  Electron :: "obj option list"
  Muon :: "obj option list"
  Jet :: "obj list"
  MET :: obj

text \<open>The batch: its schema (\<^verbatim>\<open>hasattr(events, "genWeight")\<close>,
  \<^verbatim>\<open>hasattr(events.HLT, trig)\<close>, \<^verbatim>\<open>coll.fields\<close>) and its events.\<close>

record events =
  dataset :: string
  has_genWeight :: bool
  HLT_fields :: "string list"
  Electron_fields :: "string list"
  Muon_fields :: "string list"
  evs :: "event list"

text \<open>
  The processor instance with its collaborators: the lumi mask, the identification
  predicates of \<^verbatim>\<open>utils.selection\<close>, the vector operations of the event schema, the
  correction tables and the histogram schema (the declared names and the binning).
\<close>

record NanoProcessor =
  isCorr :: bool
  hist_names :: "string list"
  binof :: "string \<Rightarrow> real option \<Rightarrow> string option \<Rightarrow> real option \<Rightarrow> nat option"
  lumiMask :: "nat \<Rightarrow> nat \<Rightarrow> bool"
  jet_id :: "event \<Rightarrow> obj \<Rightarrow> bool"
  mu_idiso :: "event \<Rightarrow> obj \<Rightarrow> bool"
  ele_mvatightid :: "event \<Rightarrow> obj \<Rightarrow> bool"
  ele_cuttightid :: "event \<Rightarrow> obj \<Rightarrow> bool"
  softmu_mask :: "event \<Rightarrow> obj \<Rightarrow> bool"
  delta_r :: "obj \<Rightarrow> obj \<Rightarrow> real"
  vec_add :: "obj \<Rightarrow> obj \<Rightarrow> obj"
  pu :: "real \<Rightarrow> real"
  eleSFs :: "obj option \<Rightarrow> real"
  muSFs :: "obj option \<Rightarrow> real"
  getSF :: "string \<Rightarrow> real \<Rightarrow> real \<Rightarrow> real \<Rightarrow> string option \<Rightarrow> real"
  btv_eval :: "string \<Rightarrow> string \<Rightarrow> real \<Rightarrow> real \<Rightarrow> real \<Rightarrow> real \<Rightarrow> real"

definition isRealData :: "events \<Rightarrow> bool" where
  "isRealData b = (\<not> has_genWeight b)"

text \<open>\<^verbatim>\<open>output["sumw"]\<close>, set before any selection.\<close>

definition sumw :: "events \<Rightarrow> real" where
  "sumw b = (if isRealData b then real (length (evs b)) else sum_list (map genWeight (evs b)))"

definition req_lumi :: "NanoProcessor \<Rightarrow> events \<Rightarrow> bool list" where
  "req_lumi p b =
     (if isRealData b then map (\<lambda>e. lumiMask p (run e) (luminosityBlock e)) (evs b)
      else replicate (length (evs b)) True)"

subsection \<open>The trigger requirement\<close>

definition checkHLT :: "string list \<Rightarrow> events \<Rightarrow> bool list" where
  "checkHLT triggers b = map (\<lambda>t. t \<in> set (HLT_fields b)) triggers"

definition trig_arrs :: "string list \<Rightarrow> events \<Rightarrow> bool list list" where
  "trig_arrs triggers b =
     map (\<lambda>t. map (\<lambda>e. HLT e t) (evs b)) (filter (\<lambda>t. t \<in> set (HLT_fields b)) triggers)"

definition req_trig :: "string list \<Rightarrow> events \<Rightarrow> bool list" where
  "req_trig triggers b = foldl (map2 (\<or>)) (replicate (length (evs b)) False) (trig_arrs triggers b)"

text \<open>The result is the error raised, or the names printed (if any) with the trigger
  requirement.\<close>

definition hlt_stage :: "string list \<Rightarrow> events \<Rightarrow> error + (string list option \<times> bool list)" where
  "hlt_stage triggers b =
     (if list_all (\<lambda>c. c = False) (checkHLT triggers b) then Inl (ValueError triggers (dataset b))
      else Inr (if list_ex (\<lambda>c. c = False) (checkHLT triggers b)
                then Some (ak_mask (map Not (checkHLT triggers b)) triggers) else None,
                req_trig triggers b))"

section \<open>The accumulators\<close>

text \<open>
  Modelled from the spec: the WeightAccumulator (\<^verbatim>\<open>coffea.analysis_tools.Weights\<close>), which
  is not part of the workflows' source.  \<open>add\<close> registers a named multiplicative component
  (a duplicate name overwrites), every component has the batch length, and the weight is
  the elementwise product of the registered components, all ones when there is none.
\<close>

record Weights =
  w_size :: nat
  w_components :: "(string \<times> real list) list"

definition Weights_new :: "nat \<Rightarrow> Weights" where
  "Weights_new n = \<lparr>w_size = n, w_components = []\<rparr>"

definition Weights_add :: "string \<Rightarrow> real list \<Rightarrow> Weights \<Rightarrow> Weights" where
  "Weights_add name arr W =
     W\<lparr>w_components := filter (\<lambda>kv. fst kv \<noteq> name) (w_components W) @ [(name, arr)]\<rparr>"

definition Weights_weight :: "Weights \<Rightarrow> real list" where
  "Weights_weight W = foldl (map2 (*)) (replicate (w_size W) 1) (map snd (w_components W))"

text \<open>
  One call of \<^verbatim>\<open>h.fill\<close>: the flavour column (when the histogram has that axis), the
  systematic label (when given), the column of the continuous axis and the weights.
\<close>

record fill_call =
  fc_flav :: "real option list option"
  fc_syst :: "string option"
  fc_val :: "real option list"
  fc_weight :: "real option list"

definition fill1 :: "real option list \<Rightarrow> real option list \<Rightarrow> fill_call" where
  "fill1 vals ws = \<lparr>fc_flav = None, fc_syst = None, fc_val = vals, fc_weight = ws\<rparr>"

definition fill2 :: "real option list \<Rightarrow> real option list \<Rightarrow> real option list \<Rightarrow> fill_call" where
  "fill2 flav vals ws = \<lparr>fc_flav = Some flav, fc_syst = None, fc_val = vals, fc_weight = ws\<rparr>"

definition fill3 :: "real option list \<Rightarrow> string \<Rightarrow> real option list \<Rightarrow> real option list \<Rightarrow> fill_call" where
  "fill3 flav syst discr ws = \<lparr>fc_flav = Some flav, fc_syst = Some syst, fc_val = discr, fc_weight = ws\<rparr>"

text \<open>The output of one batch, \<^verbatim>\<open>{dataset: output}\<close>: the sum of weights, the calls every
  named histogram received, and what the trigger check printed.\<close>

record output_dict =
  o_dataset :: string
  o_sumw :: real
  o_fills :: "string \<Rightarrow> fill_call list"
  o_printed :: "string list option"

text \<open>
  Modelled from the spec: the HistogramAccumulator (the \<^verbatim>\<open>hist\<close> objects built by
  \<^verbatim>\<open>histogrammer\<close>), which is not part of the workflows' source.  A fill adds, entry by
  entry, the weight to the bin-count store and its square to the sum-of-weights-squared
  store, at the bin of the entry's coordinates; an entry whose weight is missing or that
  has no bin adds nothing.  Two accumulators merge by elementwise addition.
\<close>

definition fc_entries :: "fill_call \<Rightarrow> (real option \<times> string option \<times> real option \<times> real option) list" where
  "fc_entries c =
     (case fc_flav c of
        None \<Rightarrow> map2 (\<lambda>v w. (None, fc_syst c, v, w)) (fc_val c) (fc_weight c)
      | Some fl \<Rightarrow> map2 (\<lambda>f (v, w). (f, fc_syst c, v, w)) fl (zip (fc_val c) (fc_weight c)))"

definition entry_add :: "NanoProcessor \<Rightarrow> string \<Rightarrow> nat \<Rightarrow> (real \<Rightarrow> real) \<Rightarrow>
    (real option \<times> string option \<times> real option \<times> real option) \<Rightarrow> real" where
  "entry_add p name bin g e =
     (case e of (f, s, v, w) \<Rightarrow>
        (case w of None \<Rightarrow> 0 | Some x \<Rightarrow> if binof p name f s v = Some bin then g x else 0))"

definition hist_sum :: "NanoProcessor \<Rightarrow> string \<Rightarrow> (real \<Rightarrow> real) \<Rightarrow> fill_call list \<Rightarrow> nat \<Rightarrow> real" where
  "hist_sum p name g calls bin = sum_list (map (entry_add p name bin g) (concat (map fc_entries calls)))"






section \<open>Shared pieces of the two workflows\<close>

text \<open>\<^verbatim>\<open>hadronFlavour + 1 * ((partonFlavour == 0) & (hadronFlavour == 0))\<close>\<close>

definition flavour :: "obj \<Rightarrow> real" where
  "flavour j = j ''hadronFlavour'' + (if j ''partonFlavour'' = 0 \<and> j ''hadronFlavour'' = 0 then 1 else 0)"

text \<open>\<^verbatim>\<open>np.where(x < 0, -0.2, x)\<close>\<close>

definition clip :: "real \<Rightarrow> real" where
  "clip x = (if x < 0 then - 0.2 else x)"

text \<open>The scale factor lookups for one jet: \<^verbatim>\<open>getSF(flav, CvL, CvB, table[, syst])\<close> and
  \<^verbatim>\<open>table.eval(variation, flav, abs(eta), pt, discr=...)\<close>.\<close>

definition sf_c :: "NanoProcessor \<Rightarrow> string \<Rightarrow> string \<Rightarrow> string \<Rightarrow> string option \<Rightarrow> obj \<Rightarrow> real" where
  "sf_c p tab cvl cvb syst j = getSF p tab (j ''hadronFlavour'') (j cvl) (j cvb) syst"

definition sf_b :: "NanoProcessor \<Rightarrow> string \<Rightarrow> string \<Rightarrow> string \<Rightarrow> obj \<Rightarrow> real" where
  "sf_b p tab var disc j = btv_eval p tab var (j ''hadronFlavour'') \<bar>j ''eta''\<bar> (j ''pt'') (j disc)"

text \<open>The four dictionaries \<^verbatim>\<open>jetsfs_c[i]\<close>, \<^verbatim>\<open>jetsfs_b[i]\<close>, \<^verbatim>\<open>csvsfs_c[i]\<close>,
  \<^verbatim>\<open>csvsfs_b[i]\<close> for one jet column, in insertion order.\<close>

definition jetsfs_c :: "NanoProcessor \<Rightarrow> obj option list \<Rightarrow> (string \<times> real option list) list" where
  "jetsfs_c p js =
     [(''SF'', map (map_option (sf_c p ''DeepJetC'' ''btagDeepFlavCvL'' ''btagDeepFlavCvB'' None)) js),
      (''SFup'', map (map_option (sf_c p ''DeepJetC'' ''btagDeepFlavCvL'' ''btagDeepFlavCvB'' (Some ''TotalUncUp''))) js),
      (''SFdn'', map (map_option (sf_c p ''DeepJetC'' ''btagDeepFlavCvL'' ''btagDeepFlavCvB'' (Some ''TotalUncDown''))) js)]"

definition jetsfs_b :: "NanoProcessor \<Rightarrow> obj option list \<Rightarrow> (string \<times> real option list) list" where
  "jetsfs_b p js =
     [(''SF'', map (map_option (sf_b p ''DeepJetB'' ''central'' ''btagDeepFlavB'')) js),
      (''SFup'', map (map_option (sf_b p ''DeepJetB'' ''up_jes'' ''btagDeepFlavB'')) js),
      (''SFdn'', map (map_option (sf_b p ''DeepJetB'' ''down_jes'' ''btagDeepFlavB'')) js)]"

definition csvsfs_c :: "NanoProcessor \<Rightarrow> obj option list \<Rightarrow> (string \<times> real option list) list" where
  "csvsfs_c p js =
     [(''SF'', map (map_option (sf_c p ''DeepCSVC'' ''btagDeepCvL'' ''btagDeepCvB'' None)) js),
      (''SFup'', map (map_option (sf_c p ''DeepCSVC'' ''btagDeepCvL'' ''btagDeepCvB'' (Some ''TotalUncUp''))) js),
      (''SFdn'', map (map_option (sf_c p ''DeepCSVC'' ''btagDeepCvL'' ''btagDeepCvB'' (Some ''TotalUncDown''))) js)]"

definition csvsfs_b :: "NanoProcessor \<Rightarrow> obj option list \<Rightarrow> (string \<times> real option list) list" where
  "csvsfs_b p js =
     [(''SFup'', map (map_option (sf_b p ''DeepCSVB'' ''up_jes'' ''btagDeepB'')) js),
      (''SF'', map (map_option (sf_b p ''DeepCSVB'' ''central'' ''btagDeepB'')) js),
      (''SFdn'', map (map_option (sf_b p ''DeepCSVB'' ''down_jes'' ''btagDeepB'')) js)]"

text \<open>\<^verbatim>\<open>disc_list\<close>: the discriminant name to its dictionary; each dictionary is a
  \<^verbatim>\<open>defaultdict(dict)\<close> keyed by the jet index, given here by the jet columns that were
  resolved (an index beyond them has the empty dictionary).\<close>

definition sfs_at :: "(obj option list \<Rightarrow> (string \<times> real option list) list) \<Rightarrow> obj option list list \<Rightarrow>
    nat \<Rightarrow> (string \<times> real option list) list" where
  "sfs_at d cols i = (if i < length cols then d (cols ! i) else [])"

definition disc_list :: "NanoProcessor \<Rightarrow> obj option list list \<Rightarrow>
    (string \<times> (nat \<Rightarrow> (string \<times> real option list) list)) list" where
  "disc_list p cols =
     [(''btagDeepB'', sfs_at (csvsfs_b p) cols), (''btagDeepC'', sfs_at (csvsfs_b p) cols),
      (''btagDeepFlavB'', sfs_at (jetsfs_b p) cols), (''btagDeepFlavC'', sfs_at (jetsfs_b p) cols),
      (''btagDeepCvL'', sfs_at (csvsfs_c p) cols), (''btagDeepCvB'', sfs_at (csvsfs_c p) cols),
      (''btagDeepFlavCvL'', sfs_at (jetsfs_c p) cols), (''btagDeepFlavCvB'', sfs_at (jetsfs_c p) cols)]"

text \<open>\<^verbatim>\<open>disc_list[name][i]\<close>; the declared discriminant histograms are named after the
  keys of \<^verbatim>\<open>disc_list\<close>, another name has no entry.\<close>

definition disc_variants :: "(string \<times> (nat \<Rightarrow> (string \<times> real option list) list)) list \<Rightarrow>
    string \<Rightarrow> nat \<Rightarrow> (string \<times> real option list) list" where
  "disc_variants dl name i = (case map_of dl name of None \<Rightarrow> [] | Some d \<Rightarrow> d i)"

text \<open>Products of option-typed columns.\<close>

definition times_col :: "real option list \<Rightarrow> real option list \<Rightarrow> real option list" where
  "times_col xs ys = map2 (ak_lift2 (*)) xs ys"

definition MET_vec :: "obj \<Rightarrow> obj" where
  "MET_vec m = (\<lambda>_. 0)(''pt'' := m ''pt'', ''eta'' := 0, ''phi'' := m ''phi'', ''mass'' := 0)"

text \<open>The loop \<^verbatim>\<open>for histname, h in output.items()\<close>: every declared histogram
  receives the calls the dispatcher makes for its name.\<close>

definition fill_loop :: "(string \<Rightarrow> fill_call list) \<Rightarrow> string list \<Rightarrow> (string \<Rightarrow> fill_call list)" where
  "fill_loop dispatch names = foldl (\<lambda>out h. out(h := out h @ dispatch h)) (\<lambda>_. []) names"

text \<open>\<^verbatim>\<open>output[name].fill(...)\<close> for the histograms filled by name after the loop.\<close>

definition fill_named :: "(string \<times> fill_call) list \<Rightarrow> (string \<Rightarrow> fill_call list) \<Rightarrow> (string \<Rightarrow> fill_call list)" where
  "fill_named named out = foldl (\<lambda>out nc. out(fst nc := out (fst nc) @ [snd nc])) out named"

section \<open>The workflow \<^verbatim>\<open>ctag_eWc_valid_sf\<close>\<close>

definition eWc_triggers :: "string list" where
  "eWc_triggers = [''Ele32_WPTight_Gsf_L1DoubleEG'']"

subsection \<open>Object selection and requirements of one event\<close>

definition eWc_iso_ele_sel :: "NanoProcessor \<Rightarrow> event \<Rightarrow> obj option list" where
  "eWc_iso_ele_sel p e = ak_where (\<lambda>l. l ''pt'' > 34 \<and> ele_mvatightid p e l) (Electron e)"

definition eWc_req_ele :: "NanoProcessor \<Rightarrow> event \<Rightarrow> bool" where
  "eWc_req_ele p e = (ak_count (eWc_iso_ele_sel p e) = 1)"

text \<open>\<^verbatim>\<open>ak.pad_none(iso_ele, 1, axis=1)[:, 0]\<close>: the padded list is never empty.\<close>

definition eWc_iso_ele :: "NanoProcessor \<Rightarrow> event \<Rightarrow> obj option" where
  "eWc_iso_ele p e = ak_firsts (ak_pad_none (eWc_iso_ele_sel p e) 1)"

definition eWc_event_jet :: "NanoProcessor \<Rightarrow> event \<Rightarrow> obj list" where
  "eWc_event_jet p e =
     filter (\<lambda>j. jet_id p e j \<and> ak_all [map_option (\<lambda>l. delta_r p j l > 0.5) (eWc_iso_ele p e)]) (Jet e)"

definition eWc_req_jets :: "NanoProcessor \<Rightarrow> event \<Rightarrow> bool" where
  "eWc_req_jets p e = (length (eWc_event_jet p e) \<ge> 1 \<and> length (eWc_event_jet p e) \<le> 3)"

definition eWc_soft_muon_sel :: "NanoProcessor \<Rightarrow> event \<Rightarrow> obj option list" where
  "eWc_soft_muon_sel p e = ak_where (softmu_mask p e) (Muon e)"

definition eWc_req_softmu :: "NanoProcessor \<Rightarrow> event \<Rightarrow> bool" where
  "eWc_req_softmu p e = (ak_count (eWc_soft_muon_sel p e) \<ge> 1)"

definition eWc_soft_muon :: "NanoProcessor \<Rightarrow> event \<Rightarrow> obj option list" where
  "eWc_soft_muon p e = ak_pad_none (eWc_soft_muon_sel p e) 1"

definition eWc_mu_jet_sel :: "NanoProcessor \<Rightarrow> event \<Rightarrow> obj list" where
  "eWc_mu_jet_sel p e =
     filter (\<lambda>j. ak_all (map (map_option (\<lambda>m. delta_r p j m \<le> 0.4)) (eWc_soft_muon p e))
                 \<and> (j ''muonIdx1'' \<noteq> - 1 \<or> j ''muonIdx2'' \<noteq> - 1))
       (eWc_event_jet p e)"

definition eWc_req_mujet :: "NanoProcessor \<Rightarrow> event \<Rightarrow> bool" where
  "eWc_req_mujet p e = (length (eWc_mu_jet_sel p e) \<ge> 1)"

definition eWc_mu_jet :: "NanoProcessor \<Rightarrow> event \<Rightarrow> obj option list" where
  "eWc_mu_jet p e = ak_pad_none (map Some (eWc_mu_jet_sel p e)) 1"

definition eWc_req_pTratio :: "NanoProcessor \<Rightarrow> event \<Rightarrow> bool option" where
  "eWc_req_pTratio p e =
     ak_lift2 (\<lambda>m j. m ''pt'' / j ''pt'' < 0.6) (ak_firsts (eWc_soft_muon p e)) (ak_firsts (eWc_mu_jet p e))"

definition eWc_req_QCDveto :: "NanoProcessor \<Rightarrow> event \<Rightarrow> bool option" where
  "eWc_req_QCDveto p e =
     ak_lift2 (\<lambda>l j. l ''pfRelIso03_all'' < 0.05 \<and> \<bar>l ''dz''\<bar> < 0.01 \<and> \<bar>l ''dxy''\<bar> < 0.002
                    \<and> l ''ip3d'' < 0.2
                    \<and> (l ''pt'' / j ''pt'' < 0 \<or> l ''pt'' / j ''pt'' > 0.75))
       (eWc_iso_ele p e) (ak_firsts (eWc_mu_jet p e))"

definition eWc_dilep_mu :: "NanoProcessor \<Rightarrow> event \<Rightarrow> obj option list" where
  "eWc_dilep_mu p e = ak_where (\<lambda>m. m ''pt'' > 12 \<and> mu_idiso p e m) (Muon e)"

definition eWc_dilep_ele :: "NanoProcessor \<Rightarrow> event \<Rightarrow> obj option list" where
  "eWc_dilep_ele p e = ak_where (\<lambda>l. l ''pt'' > 15 \<and> ele_mvatightid p e l) (Electron e)"

definition eWc_req_dilepveto :: "NanoProcessor \<Rightarrow> event \<Rightarrow> bool" where
  "eWc_req_dilepveto p e = (ak_count (eWc_dilep_mu p e) + ak_count (eWc_dilep_ele p e) \<noteq> 2)"

definition eWc_Wmass :: "NanoProcessor \<Rightarrow> event \<Rightarrow> obj option" where
  "eWc_Wmass p e = map_option (vec_add p (MET_vec (MET e))) (eWc_iso_ele p e)"

definition eWc_req_Wmass :: "NanoProcessor \<Rightarrow> event \<Rightarrow> bool option" where
  "eWc_req_Wmass p e = map_option (\<lambda>v. v ''mass'' > 55) (eWc_Wmass p e)"

subsection \<open>The event mask\<close>

text \<open>The requirement columns that follow \<^verbatim>\<open>req_trig\<close> in the conjunction, in its order.\<close>

definition eWc_requirements :: "NanoProcessor \<Rightarrow> events \<Rightarrow> bool option list list" where
  "eWc_requirements p b =
     [map Some (req_lumi p b),
      map (\<lambda>e. Some (eWc_req_ele p e)) (evs b),
      map (\<lambda>e. Some (eWc_req_jets p e)) (evs b),
      map (\<lambda>e. Some (eWc_req_softmu p e)) (evs b),
      map (\<lambda>e. Some (eWc_req_mujet p e)) (evs b),
      map (eWc_req_Wmass p) (evs b),
      map (\<lambda>e. Some (eWc_req_dilepveto p e)) (evs b),
      map (eWc_req_QCDveto p) (evs b),
      map (eWc_req_pTratio p) (evs b)]"

definition eWc_event_level :: "NanoProcessor \<Rightarrow> events \<Rightarrow> bool list \<Rightarrow> bool list" where
  "eWc_event_level p b rt = ak_fill_none (foldl ak_and (map Some rt) (eWc_requirements p b)) False"

subsection \<open>Weights\<close>

definition eWc_weights :: "NanoProcessor \<Rightarrow> events \<Rightarrow> bool list \<Rightarrow> Weights" where
  "eWc_weights p b lv =
     (let W0 = Weights_new (length (evs b));
          W1 = (if \<not> isRealData b then Weights_add ''genweight'' (map genWeight (evs b)) W0 else W0)
      in if \<not> isRealData b \<and> isCorr p then
           Weights_add ''lep2sf''
             (map2 (\<lambda>l e. if l then muSFs p (ak_firsts (eWc_soft_muon_sel p e)) else 1) lv (evs b))
             (Weights_add ''lep1sf''
               (map2 (\<lambda>l e. if l then eleSFs p (ak_firsts (eWc_iso_ele_sel p e)) else 1) lv (evs b))
               (Weights_add ''puweight'' (map (\<lambda>e. pu p (nPU e)) (evs b)) W1))
         else W1)"

subsection \<open>Selected objects\<close>

record eWc_locals =
  real_data :: bool
  shmu :: "obj option list"
  shmu_fields :: "string list"
  sjets :: "obj list list"
  ssmu :: "obj option list"
  ssmu_fields :: "string list"
  sMET :: "obj list"
  smet :: "obj list"
  smuon_jet :: "obj option list"
  sz :: "obj option list"
  sw :: "obj option list"
  osss :: "real option list"
  njet :: "nat list"
  sweight :: "real list"
  genflavor :: "real list list"
  smflav :: "real option list"

definition eWc_select :: "NanoProcessor \<Rightarrow> events \<Rightarrow> bool list \<Rightarrow> eWc_locals" where
  "eWc_select p b lv =
     (let shmu' = ak_mask lv (map (eWc_iso_ele p) (evs b));
          sjets' = ak_mask lv (map (eWc_event_jet p) (evs b));
          ssmu' = map ak_firsts (ak_mask lv (map (eWc_soft_muon p) (evs b)));
          sMET' = ak_mask lv (map MET (evs b));
          smuon_jet' = map ak_firsts (ak_mask lv (map (eWc_mu_jet p) (evs b)))
      in \<lparr>real_data = isRealData b,
          shmu = shmu',
          shmu_fields = Electron_fields b,
          sjets = sjets',
          ssmu = ssmu',
          ssmu_fields = Muon_fields b,
          sMET = sMET',
          smet = map MET_vec sMET',
          smuon_jet = smuon_jet',
          sz = map2 (ak_lift2 (vec_add p)) shmu' ssmu',
          sw = map2 (\<lambda>l m. map_option (\<lambda>x. vec_add p x m) l) shmu' (map MET_vec sMET'),
          osss = map2 (ak_lift2 (\<lambda>l m. l ''charge'' * m ''charge'' * - 1)) shmu' ssmu',
          njet = map length sjets',
          sweight = ak_mask lv (Weights_weight (eWc_weights p b lv)),
          genflavor = (if isRealData b then map (map (\<lambda>_. 0)) sjets' else map (map flavour) sjets'),
          smflav = (if isRealData b then map (map_option (\<lambda>_. 0)) smuon_jet'
                    else map (map_option flavour) smuon_jet')\<rparr>)"

subsection \<open>Filling the histograms\<close>

text \<open>\<^verbatim>\<open>weights.weight()[event_level] * osss\<close> and
  \<^verbatim>\<open>weights.weight()[event_level] * sf * osss\<close>.\<close>

definition eWc_w :: "eWc_locals \<Rightarrow> real option list" where
  "eWc_w L = times_col (map Some (sweight L)) (osss L)"

definition eWc_w_sf :: "eWc_locals \<Rightarrow> real option list \<Rightarrow> real option list" where
  "eWc_w_sf L sf = times_col (times_col (map Some (sweight L)) sf) (osss L)"

text \<open>The fill of a per-jet quantity: flattened flavours and values, and the event weight
  broadcast to the jets and flattened.\<close>

definition eWc_jet_fill :: "eWc_locals \<Rightarrow> string \<Rightarrow> fill_call" where
  "eWc_jet_fill L field =
     fill2 (map Some (concat (genflavor L)))
           (map Some (concat (map (map (\<lambda>j. j field)) (sjets L))))
           (map Some (flatten (concat (ak_broadcast (eWc_w L) (map (map (\<lambda>j. j ''pt'')) (sjets L))))))"

text \<open>The fills of a discriminant histogram: \<^verbatim>\<open>syst="noSF"\<close>, then one fill for every key
  of the dictionary when the batch is simulated and corrections are on.\<close>

definition eWc_discr_fills :: "NanoProcessor \<Rightarrow> eWc_locals \<Rightarrow> real option list \<Rightarrow> real option list \<Rightarrow>
    (string \<times> real option list) list \<Rightarrow> fill_call list" where
  "eWc_discr_fills p L flav discr variants =
     fill3 flav ''noSF'' discr (eWc_w L) #
     (if \<not> real_data L \<and> isCorr p
      then map (\<lambda>v. fill3 flav (fst v) discr (eWc_w_sf L (snd v))) variants else [])"

definition eWc_dispatch :: "NanoProcessor \<Rightarrow> eWc_locals \<Rightarrow> string \<Rightarrow> fill_call list" where
  "eWc_dispatch p L histname =
     (if contains ''Deep'' histname \<and> \<not> contains ''btag'' histname then
        [eWc_jet_fill L histname]
      else if contains ''jet_'' histname \<and> \<not> contains ''mu'' histname then
        [eWc_jet_fill L (replace ''jet_'' [] histname)]
      else if contains ''hl_'' histname \<and> replace ''hl_'' [] histname \<in> set (shmu_fields L) then
        [fill1 (map Some (flatten (map (map_option (\<lambda>l. l (replace ''hl_'' [] histname))) (shmu L)))) (eWc_w L)]
      else if contains ''soft_l'' histname \<and> replace ''soft_l_'' [] histname \<in> set (ssmu_fields L) then
        [fill1 (map Some (flatten (map (map_option (\<lambda>m. m (replace ''soft_l_'' [] histname))) (ssmu L)))) (eWc_w L)]
      else if contains ''MET'' histname then
        [fill1 (map (\<lambda>m. Some (m (replace ''MET_'' [] histname))) (sMET L)) (eWc_w L)]
      else if contains ''mujet_'' histname then
        [fill2 (smflav L)
           (map Some (flatten (map (map_option (\<lambda>j. j (replace ''mujet_'' [] histname))) (smuon_jet L))))
           (eWc_w L)]
      else if contains ''btagDeep'' histname \<and> contains ''0'' histname then
        eWc_discr_fills p L (smflav L)
          (map (map_option (\<lambda>j. clip (j (replace ''_0'' [] histname)))) (smuon_jet L))
          (disc_variants (disc_list p [smuon_jet L]) (replace ''_0'' [] histname) 0)
      else if contains ''btagDeep'' histname \<and> contains ''1'' histname \<and> list_all (\<lambda>i. i > 1) (njet L) then
        eWc_discr_fills p L (map (\<lambda>fs. Some (fs ! 1)) (genflavor L))
          (map (\<lambda>js. Some (clip ((js ! 1) (replace ''_1'' [] histname)))) (sjets L))
          (disc_variants (disc_list p [smuon_jet L]) (replace ''_1'' [] histname) 1)
      else [])"

text \<open>The histograms filled by name after the loop; \<open>gf0\<close> and \<open>sj0\<close> are
  \<^verbatim>\<open>genflavor[:, 0]\<close> and \<^verbatim>\<open>sjets[:, 0]\<close>.\<close>

definition eWc_named :: "NanoProcessor \<Rightarrow> eWc_locals \<Rightarrow> real list \<Rightarrow> obj list \<Rightarrow> (string \<times> fill_call) list" where
  "eWc_named p L gf0 sj0 =
     [(''njet'', fill1 (map (\<lambda>n. Some (real n)) (njet L)) (eWc_w L)),
      (''hl_ptratio'', fill2 (map Some gf0)
          (map2 (\<lambda>l j. map_option (\<lambda>x. x ''pt'' / j ''pt'') l) (shmu L) sj0) (eWc_w L)),
      (''soft_l_ptratio'', fill2 (smflav L)
          (map2 (ak_lift2 (\<lambda>m j. m ''pt'' / j ''pt'')) (ssmu L) (smuon_jet L)) (eWc_w L)),
      (''dr_lmujetsmu'', fill2 (smflav L) (map2 (ak_lift2 (delta_r p)) (smuon_jet L) (ssmu L)) (eWc_w L)),
      (''dr_lmujethmu'', fill2 (smflav L) (map2 (ak_lift2 (delta_r p)) (smuon_jet L) (shmu L)) (eWc_w L)),
      (''dr_lmusmu'', fill1 (map2 (ak_lift2 (delta_r p)) (shmu L) (ssmu L)) (eWc_w L)),
      (''z_pt'', fill1 (map Some (flatten (map (map_option (\<lambda>v. v ''pt'')) (sz L)))) (eWc_w L)),
      (''z_eta'', fill1 (map Some (flatten (map (map_option (\<lambda>v. v ''eta'')) (sz L)))) (eWc_w L)),
      (''z_phi'', fill1 (map Some (flatten (map (map_option (\<lambda>v. v ''phi'')) (sz L)))) (eWc_w L)),
      (''z_mass'', fill1 (map Some (flatten (map (map_option (\<lambda>v. v ''mass'')) (sz L)))) (eWc_w L)),
      (''w_pt'', fill1 (map Some (flatten (map (map_option (\<lambda>v. v ''pt'')) (sw L)))) (eWc_w L)),
      (''w_eta'', fill1 (map Some (flatten (map (map_option (\<lambda>v. v ''eta'')) (sw L)))) (eWc_w L)),
      (''w_phi'', fill1 (map Some (flatten (map (map_option (\<lambda>v. v ''phi'')) (sw L)))) (eWc_w L)),
      (''w_mass'', fill1 (map Some (flatten (map (map_option (\<lambda>v. v ''mass'')) (sw L)))) (eWc_w L))]"

subsection \<open>\<^verbatim>\<open>NanoProcessor.process\<close>\<close>

text \<open>The result is the batch as the call leaves it, with the output.\<close>

definition eWc_process :: "NanoProcessor \<Rightarrow> events \<Rightarrow> error + (events \<times> output_dict)" where
  "eWc_process p b =
     (case hlt_stage eWc_triggers b of
        Inl err \<Rightarrow> Inl err
      | Inr (printed, rt) \<Rightarrow>
          (let L = eWc_select p b (eWc_event_level p b rt);
               out = fill_loop (eWc_dispatch p L) (hist_names p)
           in case ak_col 0 (genflavor L) of
                Inl err \<Rightarrow> Inl err
              | Inr gf0 \<Rightarrow>
                  (case ak_col 0 (sjets L) of
                     Inl err \<Rightarrow> Inl err
                   | Inr sj0 \<Rightarrow>
                       Inr (b, \<lparr>o_dataset = dataset b, o_sumw = sumw b,
                                o_fills = fill_named (eWc_named p L gf0 sj0) out,
                                o_printed = printed\<rparr>))))"

section \<open>The workflow \<^verbatim>\<open>ttdilep_valid_sf\<close>\<close>

definition tt_triggers :: "string list" where
  "tt_triggers = [''IsoMu24'']"

subsection \<open>Object selection\<close>

text \<open>
  The muon and electron cuts assign to \<^verbatim>\<open>events.Muon\<close> and \<^verbatim>\<open>events.Electron\<close>: the
  selection is a state transformer on the event, and everything after it reads the
  stored, filtered and padded collections.
\<close>

definition tt_select_muon :: "NanoProcessor \<Rightarrow> event \<Rightarrow> event" where
  "tt_select_muon p e =
     (let e1 = e\<lparr>Muon := ak_where (\<lambda>m. m ''pt'' > 30 \<and> mu_idiso p e m) (Muon e)\<rparr>
      in e1\<lparr>Muon := ak_pad_none (Muon e1) 1\<rparr>)"

definition tt_select_ele :: "NanoProcessor \<Rightarrow> event \<Rightarrow> event" where
  "tt_select_ele p e =
     (let e1 = e\<lparr>Electron := ak_where (\<lambda>l. l ''pt'' > 30 \<and> ele_cuttightid p e l) (Electron e)\<rparr>
      in e1\<lparr>Electron := ak_pad_none (Electron e1) 1\<rparr>)"

definition tt_select_event :: "NanoProcessor \<Rightarrow> event \<Rightarrow> event" where
  "tt_select_event p e = tt_select_ele p (tt_select_muon p e)"

definition tt_select_objects :: "NanoProcessor \<Rightarrow> events \<Rightarrow> events" where
  "tt_select_objects p b = b\<lparr>evs := map (tt_select_event p) (evs b)\<rparr>"

text \<open>The requirements, read from the event after the assignments.\<close>

definition tt_req_muon :: "event \<Rightarrow> bool" where
  "tt_req_muon e = (ak_count (Muon e) = 1)"

definition tt_req_ele :: "event \<Rightarrow> bool" where
  "tt_req_ele e = (ak_count (Electron e) = 1)"

definition tt_event_jet :: "NanoProcessor \<Rightarrow> event \<Rightarrow> obj list" where
  "tt_event_jet p e =
     filter (\<lambda>j. jet_id p e j
                 \<and> ak_all (map (map_option (\<lambda>m. delta_r p j m > 0.4)) (Muon e))
                 \<and> ak_all (map (map_option (\<lambda>l. delta_r p j l > 0.4)) (Electron e)))
       (Jet e)"

definition tt_req_jets :: "NanoProcessor \<Rightarrow> event \<Rightarrow> bool" where
  "tt_req_jets p e = (length (tt_event_jet p e) \<ge> 2)"

text \<open>\<^verbatim>\<open>(Electron[:, 0:1].charge * Muon[:, 0:1].charge) == -1\<close> with the missing entries
  filled by False, for one event; the column is the flattening of these lists.\<close>

definition tt_opposite_charge :: "event \<Rightarrow> bool list" where
  "tt_opposite_charge e =
     ak_fill_none
       (map (map_option (\<lambda>x. x = - 1))
          (map2 (ak_lift2 (\<lambda>l m. l ''charge'' * m ''charge'')) (take 1 (Electron e)) (take 1 (Muon e))))
       False"

subsection \<open>The event mask\<close>

definition tt_requirements :: "NanoProcessor \<Rightarrow> events \<Rightarrow> bool option list list" where
  "tt_requirements p b =
     [map Some (req_lumi p b),
      map (\<lambda>e. Some (tt_req_muon e)) (evs b),
      map (\<lambda>e. Some (tt_req_ele e)) (evs b),
      map (\<lambda>e. Some (tt_req_jets p e)) (evs b),
      map Some (concat (map tt_opposite_charge (evs b)))]"

definition tt_event_level :: "NanoProcessor \<Rightarrow> events \<Rightarrow> bool list \<Rightarrow> bool list" where
  "tt_event_level p b rt = ak_fill_none (foldl ak_and (map Some rt) (tt_requirements p b)) False"

subsection \<open>Weights\<close>

definition tt_weights :: "NanoProcessor \<Rightarrow> events \<Rightarrow> bool list \<Rightarrow> Weights" where
  "tt_weights p b lv =
     (let W0 = Weights_new (length (evs b));
          W1 = (if \<not> isRealData b then Weights_add ''genweight'' (map genWeight (evs b)) W0 else W0)
      in if \<not> isRealData b \<and> isCorr p then
           Weights_add ''lep2sf''
             (map2 (\<lambda>l e. if l then eleSFs p (ak_firsts (Electron e)) else 1) lv (evs b))
             (Weights_add ''lep1sf''
               (map2 (\<lambda>l e. if l then muSFs p (ak_firsts (Muon e)) else 1) lv (evs b))
               (Weights_add ''puweight'' (map (\<lambda>e. pu p (nPU e)) (evs b)) W1))
         else W1)"

subsection \<open>Selected objects\<close>

record tt_locals =
  tt_real_data :: bool
  smu :: "obj option list list"
  smu_fields :: "string list"
  sel :: "obj option list list"
  sel_fields :: "string list"
  tt_sjets :: "obj list list"
  tt_sweight :: "real list"
  tt_genflavor :: "real list list"

definition tt_select :: "NanoProcessor \<Rightarrow> events \<Rightarrow> bool list \<Rightarrow> tt_locals" where
  "tt_select p b lv =
     (let sjets' = map (take 2) (ak_mask lv (map (tt_event_jet p) (evs b)))
      in \<lparr>tt_real_data = isRealData b,
          smu = ak_mask lv (map Muon (evs b)),
          smu_fields = Muon_fields b,
          sel = ak_mask lv (map Electron (evs b)),
          sel_fields = Electron_fields b,
          tt_sjets = sjets',
          tt_sweight = ak_mask lv (Weights_weight (tt_weights p b lv)),
          tt_genflavor = (if isRealData b then map (map (\<lambda>_. 0)) sjets' else map (map flavour) sjets')\<rparr>)"

subsection \<open>Filling the histograms\<close>

text \<open>\<^verbatim>\<open>weights.weight()[event_level]\<close> and \<^verbatim>\<open>weights.weight()[event_level] * sf\<close>.\<close>

definition tt_w :: "tt_locals \<Rightarrow> real option list" where
  "tt_w L = map Some (tt_sweight L)"

definition tt_w_sf :: "tt_locals \<Rightarrow> real option list \<Rightarrow> real option list" where
  "tt_w_sf L sf = times_col (map Some (tt_sweight L)) sf"

definition tt_jet_fill :: "tt_locals \<Rightarrow> string \<Rightarrow> fill_call" where
  "tt_jet_fill L field =
     fill2 (map Some (concat (tt_genflavor L)))
           (map Some (concat (map (map (\<lambda>j. j field)) (tt_sjets L))))
           (concat (ak_broadcast (tt_w L) (map (map (\<lambda>j. j ''pt'')) (tt_sjets L))))"

definition tt_discr_fills :: "NanoProcessor \<Rightarrow> tt_locals \<Rightarrow> real option list \<Rightarrow> real option list \<Rightarrow>
    (string \<times> real option list) list \<Rightarrow> fill_call list" where
  "tt_discr_fills p L flav discr variants =
     fill3 flav ''noSF'' discr (tt_w L) #
     (if \<not> tt_real_data L \<and> isCorr p
      then map (\<lambda>v. fill3 flav (fst v) discr (tt_w_sf L (snd v))) variants else [])"

text \<open>\<open>gf\<close> and \<open>sj\<close> hold the columns \<^verbatim>\<open>genflavor[:, i]\<close> and \<^verbatim>\<open>sjets[:, i]\<close> for
  \<^verbatim>\<open>i in range(2)\<close>.\<close>

definition tt_dispatch :: "NanoProcessor \<Rightarrow> tt_locals \<Rightarrow> real list list \<Rightarrow> obj list list \<Rightarrow> string \<Rightarrow> fill_call list" where
  "tt_dispatch p L gf sj histname =
     (if contains ''Deep'' histname \<and> \<not> contains ''btag'' histname then
        [tt_jet_fill L histname]
      else if contains ''btagDeep'' histname then
        concat (map (\<lambda>i.
          if contains (str i) histname then
            tt_discr_fills p L (map Some (gf ! i))
              (map (\<lambda>j. Some (clip (j (replace (''_'' @ str i) [] histname)))) (sj ! i))
              (disc_variants (disc_list p (map (map Some) sj)) (replace (''_'' @ str i) [] histname) i)
          else []) [0, 1])
      else if contains ''mu_'' histname \<and> replace ''mu_'' [] histname \<in> set (smu_fields L) then
        [fill1 (map Some (flatten (concat (map (map (map_option (\<lambda>m. m (replace ''mu_'' [] histname)))) (smu L)))))
           (tt_w L)]
      else if contains ''ele_'' histname \<and> replace ''ele_'' [] histname \<in> set (sel_fields L) then
        [fill1 (map Some (flatten (concat (map (map (map_option (\<lambda>l. l (replace ''ele_'' [] histname)))) (sel L)))))
           (tt_w L)]
      else if contains ''jet'' histname \<and> \<not> contains ''dr'' histname \<and> ''njet'' \<noteq> histname then
        concat (map (\<lambda>i.
          if contains (str i) histname then
            [fill2 (map Some (gf ! i))
               (map (\<lambda>j. Some (j (replace (''jet'' @ str i @ ''_'') [] histname))) (sj ! i)) (tt_w L)]
          else []) [0, 1])
      else [])"

definition tt_named :: "NanoProcessor \<Rightarrow> tt_locals \<Rightarrow> real list list \<Rightarrow> obj list list \<Rightarrow> (string \<times> fill_call) list" where
  "tt_named p L gf sj =
     map (\<lambda>i. (''dr_mujet'' @ str i,
               fill2 (map Some (gf ! i))
                 (map Some (flatten (concat
                    (map2 (\<lambda>ms j. map (map_option (\<lambda>m. delta_r p m j)) ms) (smu L) (sj ! i)))))
                 (tt_w L))) [0, 1]
     @ [(''njet'', fill1 (map (\<lambda>js. Some (real (length js))) (tt_sjets L)) (tt_w L))]"

subsection \<open>\<^verbatim>\<open>NanoProcessor.process\<close>\<close>

definition ak_cols2 :: "'a list list \<Rightarrow> error + 'a list list" where
  "ak_cols2 xss =
     (case ak_col 0 xss of
        Inl err \<Rightarrow> Inl err
      | Inr c0 \<Rightarrow> (case ak_col 1 xss of Inl err \<Rightarrow> Inl err | Inr c1 \<Rightarrow> Inr [c0, c1]))"

definition tt_process :: "NanoProcessor \<Rightarrow> events \<Rightarrow> error + (events \<times> output_dict)" where
  "tt_process p b =
     (case hlt_stage tt_triggers b of
        Inl err \<Rightarrow> Inl err
      | Inr (printed, rt) \<Rightarrow>
          (let b' = tt_select_objects p b;
               L = tt_select p b' (tt_event_level p b' rt)
           in case ak_cols2 (tt_sjets L) of
                Inl err \<Rightarrow> Inl err
              | Inr sj \<Rightarrow>
                  (case ak_cols2 (tt_genflavor L) of
                     Inl err \<Rightarrow> Inl err
                   | Inr gf \<Rightarrow>
                       Inr (b', \<lparr>o_dataset = dataset b, o_sumw = sumw b,
                                 o_fills = fill_named (tt_named p L gf sj)
                                             (fill_loop (tt_dispatch p L gf sj) (hist_names p)),
                                 o_printed = printed\<rparr>))))"

section \<open>Row-wise reading of the columns\<close>

text \<open>
  Every column of the workflows is computed event by event.  The following functions
  give the entry of one event: of the trigger and lumi requirements, of the event mask,
  and of the weight product of an event that passes the mask.
\<close>

definition trig_row :: "string list \<Rightarrow> string list \<Rightarrow> event \<Rightarrow> bool" where
  "trig_row triggers hf e = list_ex (\<lambda>t. t \<in> set hf \<and> HLT e t) triggers"

definition lumi_row :: "NanoProcessor \<Rightarrow> bool \<Rightarrow> event \<Rightarrow> bool" where
  "lumi_row p rd e = (if rd then lumiMask p (run e) (luminosityBlock e) else True)"

definition eWc_accept :: "NanoProcessor \<Rightarrow> bool \<Rightarrow> string list \<Rightarrow> event \<Rightarrow> bool" where
  "eWc_accept p rd hf e =
     (trig_row eWc_triggers hf e \<and> lumi_row p rd e \<and> eWc_req_ele p e \<and> eWc_req_jets p e \<and>
      eWc_req_softmu p e \<and> eWc_req_mujet p e \<and> eWc_req_Wmass p e = Some True \<and>
      eWc_req_dilepveto p e \<and> eWc_req_QCDveto p e = Some True \<and> eWc_req_pTratio p e = Some True)"

definition eWc_evweight :: "NanoProcessor \<Rightarrow> bool \<Rightarrow> event \<Rightarrow> real" where
  "eWc_evweight p rd e =
     (if rd then 1
      else if isCorr p then
        1 * genWeight e * pu p (nPU e) * eleSFs p (ak_firsts (eWc_iso_ele_sel p e))
          * muSFs p (ak_firsts (eWc_soft_muon_sel p e))
      else 1 * genWeight e)"

definition tt_accept :: "NanoProcessor \<Rightarrow> bool \<Rightarrow> string list \<Rightarrow> event \<Rightarrow> bool" where
  "tt_accept p rd hf e =
     (trig_row tt_triggers hf e \<and> lumi_row p rd e \<and> tt_req_muon e \<and> tt_req_ele e \<and>
      tt_req_jets p e \<and> tt_opposite_charge e = [True])"

definition tt_evweight :: "NanoProcessor \<Rightarrow> bool \<Rightarrow> event \<Rightarrow> real" where
  "tt_evweight p rd e =
     (if rd then 1
      else if isCorr p then
        1 * genWeight e * pu p (nPU e) * muSFs p (ak_firsts (Muon e)) * eleSFs p (ak_firsts (Electron e))
      else 1 * genWeight e)"

text \<open>The selected objects of a batch, and the verdict of the guard
  \<^verbatim>\<open>all(i > 1 for i in njet)\<close> on it.\<close>

definition eWc_selected :: "NanoProcessor \<Rightarrow> events \<Rightarrow> eWc_locals" where
  "eWc_selected p b = eWc_select p b (eWc_event_level p b (req_trig eWc_triggers b))"

definition eWc_guard :: "NanoProcessor \<Rightarrow> events \<Rightarrow> bool" where
  "eWc_guard p b = list_all (\<lambda>i. i > 1) (njet (eWc_selected p b))"

text \<open>The names the dispatcher of the eWc workflow sends to its last branch, the
  discriminant of the subleading jet, and those it sends to the branch before, the
  discriminant of the muon jet.\<close>

definition eWc_earlier_branch :: "eWc_locals \<Rightarrow> string \<Rightarrow> bool" where
  "eWc_earlier_branch L histname =
     ((contains ''Deep'' histname \<and> \<not> contains ''btag'' histname) \<or>
      (contains ''jet_'' histname \<and> \<not> contains ''mu'' histname) \<or>
      (contains ''hl_'' histname \<and> replace ''hl_'' [] histname \<in> set (shmu_fields L)) \<or>
      (contains ''soft_l'' histname \<and> replace ''soft_l_'' [] histname \<in> set (ssmu_fields L)) \<or>
      contains ''MET'' histname \<or> contains ''mujet_'' histname)"

definition eWc_mujet_discr :: "eWc_locals \<Rightarrow> string \<Rightarrow> bool" where
  "eWc_mujet_discr L histname =
     (\<not> eWc_earlier_branch L histname \<and> contains ''btagDeep'' histname \<and> contains ''0'' histname)"

definition eWc_subleading_discr :: "eWc_locals \<Rightarrow> string \<Rightarrow> bool" where
  "eWc_subleading_discr L histname =
     (\<not> eWc_earlier_branch L histname \<and> \<not> contains ''0'' histname \<and>
      contains ''btagDeep'' histname \<and> contains ''1'' histname)"

section \<open>The outputs in closed form\<close>

text \<open>The selected objects and the output of a batch that has the trigger path: the
  column reads \<^verbatim>\<open>[:, i]\<close> of its selected jets cannot fail.\<close>

definition eWc_output :: "NanoProcessor \<Rightarrow> events \<Rightarrow> output_dict" where
  "eWc_output p b =
     (let L = eWc_selected p b
      in \<lparr>o_dataset = dataset b, o_sumw = sumw b,
          o_fills = fill_named (eWc_named p L (map (\<lambda>fs. fs ! 0) (genflavor L)) (map (\<lambda>js. js ! 0) (sjets L)))
                      (fill_loop (eWc_dispatch p L) (hist_names p)),
          o_printed = None\<rparr>)"

definition tt_selected :: "NanoProcessor \<Rightarrow> events \<Rightarrow> tt_locals" where
  "tt_selected p b =
     tt_select p (tt_select_objects p b) (tt_event_level p (tt_select_objects p b) (req_trig tt_triggers b))"

definition tt_output :: "NanoProcessor \<Rightarrow> events \<Rightarrow> output_dict" where
  "tt_output p b =
     (let L = tt_selected p b;
          gf = [map (\<lambda>fs. fs ! 0) (tt_genflavor L), map (\<lambda>fs. fs ! 1) (tt_genflavor L)];
          sj = [map (\<lambda>js. js ! 0) (tt_sjets L), map (\<lambda>js. js ! 1) (tt_sjets L)]
      in \<lparr>o_dataset = dataset b, o_sumw = sumw b,
          o_fills = fill_named (tt_named p L gf sj) (fill_loop (tt_dispatch p L gf sj) (hist_names p)),
          o_printed = None\<rparr>)"

section \<open>The selected objects as rows\<close>

text \<open>
  The selected objects built directly from the list of the events that pass the mask,
  one row per event; \<open>eWc_selected\<close> and \<open>tt_selected\<close> are of this form.
\<close>

definition eWc_rows :: "NanoProcessor \<Rightarrow> bool \<Rightarrow> string list \<Rightarrow> string list \<Rightarrow> event list \<Rightarrow> eWc_locals" where
  "eWc_rows p rd ef mf S =
     \<lparr>real_data = rd,
      shmu = map (eWc_iso_ele p) S,
      shmu_fields = ef,
      sjets = map (eWc_event_jet p) S,
      ssmu = map (\<lambda>e. ak_firsts (eWc_soft_muon p e)) S,
      ssmu_fields = mf,
      sMET = map MET S,
      smet = map (\<lambda>e. MET_vec (MET e)) S,
      smuon_jet = map (\<lambda>e. ak_firsts (eWc_mu_jet p e)) S,
      sz = map (\<lambda>e. ak_lift2 (vec_add p) (eWc_iso_ele p e) (ak_firsts (eWc_soft_muon p e))) S,
      sw = map (\<lambda>e. map_option (\<lambda>x. vec_add p x (MET_vec (MET e))) (eWc_iso_ele p e)) S,
      osss = map (\<lambda>e. ak_lift2 (\<lambda>l m. l ''charge'' * m ''charge'' * - 1)
                        (eWc_iso_ele p e) (ak_firsts (eWc_soft_muon p e))) S,
      njet = map (\<lambda>e. length (eWc_event_jet p e)) S,
      sweight = map (eWc_evweight p rd) S,
      genflavor = map (\<lambda>e. map (if rd then (\<lambda>_. 0) else flavour) (eWc_event_jet p e)) S,
      smflav = map (\<lambda>e. map_option (if rd then (\<lambda>_. 0) else flavour) (ak_firsts (eWc_mu_jet p e))) S\<rparr>"

definition tt_rows :: "NanoProcessor \<Rightarrow> bool \<Rightarrow> string list \<Rightarrow> string list \<Rightarrow> event list \<Rightarrow> tt_locals" where
  "tt_rows p rd ef mf S =
     \<lparr>tt_real_data = rd,
      smu = map Muon S,
      smu_fields = mf,
      sel = map Electron S,
      sel_fields = ef,
      tt_sjets = map (\<lambda>e. take 2 (tt_event_jet p e)) S,
      tt_sweight = map (tt_evweight p rd) S,
      tt_genflavor = map (\<lambda>e. map (if rd then (\<lambda>_. 0) else flavour) (take 2 (tt_event_jet p e))) S\<rparr>"




text \<open>The columns \<^verbatim>\<open>genflavor[:, i]\<close> and \<^verbatim>\<open>sjets[:, i]\<close> of the ttdilep workflow, as the
  dispatcher receives them.\<close>

definition tt_gf :: "tt_locals \<Rightarrow> real list list" where
  "tt_gf T = [map (\<lambda>fs. fs ! 0) (tt_genflavor T), map (\<lambda>fs. fs ! 1) (tt_genflavor T)]"

definition tt_sj :: "tt_locals \<Rightarrow> obj list list" where
  "tt_sj T = [map (\<lambda>js. js ! 0) (tt_sjets T), map (\<lambda>js. js ! 1) (tt_sjets T)]"

section \<open>A concrete processor and concrete batches\<close>

text \<open>
  A processor with simple collaborators: every identification passes except the
  muon isolation, the distance of two particles is the difference of their \<open>eta\<close>,
  vectors add field by field, every histogram has the two bins "below 0" and "from 0 on",
  and every scale factor lookup returns 2.
\<close>

definition demo_proc :: NanoProcessor where
  "demo_proc =
     \<lparr>isCorr = True,
      hist_names = [''btagDeepB_0'', ''btagDeepB_1'', ''jet_pt'', ''njet''],
      binof = (\<lambda>name f s v. case v of None \<Rightarrow> None | Some x \<Rightarrow> Some (if x < 0 then 0 else 1)),
      lumiMask = (\<lambda>r l. True),
      jet_id = (\<lambda>e j. True),
      mu_idiso = (\<lambda>e m. False),
      ele_mvatightid = (\<lambda>e l. True),
      ele_cuttightid = (\<lambda>e l. True),
      softmu_mask = (\<lambda>e m. True),
      delta_r = (\<lambda>a b. \<bar>a ''eta'' - b ''eta''\<bar>),
      vec_add = (\<lambda>a b f. a f + b f),
      pu = (\<lambda>n. 1),
      eleSFs = (\<lambda>l. 1),
      muSFs = (\<lambda>m. 1),
      getSF = (\<lambda>tab flav cvl cvb syst. 2),
      btv_eval = (\<lambda>tab var flav eta pt discr. 2)\<rparr>"

definition demo_ele :: obj where
  "demo_ele = (\<lambda>_. 0)(''pt'' := 40, ''mass'' := 80, ''charge'' := 1)"

definition demo_softmu :: obj where
  "demo_softmu = (\<lambda>_. 0)(''pt'' := 5, ''eta'' := 1, ''charge'' := - 1)"

definition demo_jet :: obj where
  "demo_jet = (\<lambda>_. 0)(''pt'' := 50, ''eta'' := 1, ''btagDeepB'' := - 1)"

text \<open>Two events that pass the eWc selection, with two jets and with one jet.\<close>

definition demo_event2 :: event where
  "demo_event2 =
     \<lparr>run = 1, luminosityBlock = 1, genWeight = 2, nPU = 30,
      HLT = (\<lambda>t. True),
      Electron = [Some demo_ele], Muon = [Some demo_softmu], Jet = [demo_jet, demo_jet],
      MET = (\<lambda>_. 0)\<rparr>"

definition demo_event1 :: event where
  "demo_event1 = demo_event2\<lparr>Jet := [demo_jet]\<rparr>"

definition demo_batch :: "event list \<Rightarrow> events" where
  "demo_batch es =
     \<lparr>dataset = ''demo'', has_genWeight = True,
      HLT_fields = [''Ele32_WPTight_Gsf_L1DoubleEG'', ''IsoMu24''],
      Electron_fields = [''pt''], Muon_fields = [''pt''], evs = es\<rparr>"

text \<open>An event that passes the ttdilep selection, for the processor whose muon isolation
  passes.\<close>

definition demo_tt_proc :: NanoProcessor where
  "demo_tt_proc = demo_proc\<lparr>mu_idiso := (\<lambda>e m. True)\<rparr>"

definition demo_mu :: obj where
  "demo_mu = (\<lambda>_. 0)(''pt'' := 40, ''charge'' := - 1)"

definition demo_tt_event :: event where
  "demo_tt_event = demo_event2\<lparr>Muon := [Some demo_mu, Some demo_softmu]\<rparr>"

section \<open>Facts about the columns\<close>

lemma ak_and_length: "length (ak_and xs ys) = min (length xs) (length ys)"
  by (simp add: ak_and_def)

lemma foldl_ak_and_length:
  "\<forall>ys\<in>set yss. length ys = length xs \<Longrightarrow> length (foldl ak_and xs yss) = length xs"
  by (induction yss arbitrary: xs) (simp_all add: ak_and_length)

lemma ak_lift2_and_True: "(ak_lift2 (\<and>) a b = Some True) = (a = Some True \<and> b = Some True)"
  by (auto simp: ak_lift2_def split: option.splits)

lemma foldl_ak_and_nth:
  "\<forall>ys\<in>set yss. length ys = length xs \<Longrightarrow> i < length xs \<Longrightarrow>
   (foldl ak_and xs yss ! i = Some True) = (\<forall>r\<in>set (xs # yss). r ! i = Some True)"
proof (induction yss arbitrary: xs)
  case Nil
  then show ?case by simp
next
  case (Cons ys yss)
  have len: "length (ak_and xs ys) = length xs"
    using Cons.prems by (simp add: ak_and_length)
  have "(foldl ak_and (ak_and xs ys) yss ! i = Some True)
        = (\<forall>r\<in>set (ak_and xs ys # yss). r ! i = Some True)"
    using Cons.prems len by (intro Cons.IH) simp_all
  moreover have "(ak_and xs ys ! i = Some True) = (xs ! i = Some True \<and> ys ! i = Some True)"
    using Cons.prems by (simp add: ak_and_def ak_lift2_and_True)
  ultimately show ?case by auto
qed

lemma ak_fill_none_nth:
  "i < length xs \<Longrightarrow> ak_fill_none xs False ! i = (xs ! i = Some True)"
  by (auto simp: ak_fill_none_def split: option.splits)

lemma ak_fill_none_length: "length (ak_fill_none xs d) = length xs"
  by (simp add: ak_fill_none_def)

text \<open>The trigger and lumi columns, row by row.\<close>

lemma foldl_or_rows:
  "length acc = length es \<Longrightarrow>
   foldl (map2 (\<or>)) acc (map (\<lambda>t. map (\<lambda>e. f e t) es) ts)
   = map2 (\<lambda>a e. a \<or> list_ex (f e) ts) acc es"
proof (induction ts arbitrary: acc)
  case Nil
  then show ?case by (simp add: map2_map_map list_eq_iff_nth_eq)
next
  case (Cons t ts)
  have "length (map2 (\<or>) acc (map (\<lambda>e. f e t) es)) = length es"
    using Cons.prems by simp
  from Cons.IH[OF this] Cons.prems show ?case
    by (simp add: list_eq_iff_nth_eq)
qed

lemma req_trig_rows: "req_trig ts b = map (trig_row ts (HLT_fields b)) (evs b)"
proof -
  have "req_trig ts b
        = map2 (\<lambda>a e. a \<or> list_ex (\<lambda>t. HLT e t) (filter (\<lambda>t. t \<in> set (HLT_fields b)) ts))
            (replicate (length (evs b)) False) (evs b)"
    unfolding req_trig_def trig_arrs_def by (rule foldl_or_rows) simp
  also have "\<dots> = map (trig_row ts (HLT_fields b)) (evs b)"
    by (auto simp: list_eq_iff_nth_eq trig_row_def list_ex_iff)
  finally show ?thesis .
qed

lemma req_lumi_rows: "req_lumi p b = map (lumi_row p (isRealData b)) (evs b)"
  by (auto simp: req_lumi_def lumi_row_def list_eq_iff_nth_eq)

lemma length_req_trig: "length (req_trig ts b) = length (evs b)"
  by (simp add: req_trig_rows)

lemma length_req_lumi: "length (req_lumi p b) = length (evs b)"
  by (simp add: req_lumi_rows)

lemma eWc_requirements_length:
  "\<forall>r\<in>set (eWc_requirements p b). length r = length (evs b)"
  by (simp add: eWc_requirements_def length_req_lumi)

lemma tt_opposite_charge_length:
  "length (tt_opposite_charge (tt_select_event p e)) = 1"
  by (simp add: tt_opposite_charge_def ak_fill_none_def tt_select_event_def tt_select_ele_def
      tt_select_muon_def ak_pad_none_def Let_def min_def)

lemma concat_singletons:
  "\<forall>x\<in>set xs. length (f x) = Suc 0 \<Longrightarrow> concat (map f xs) = map (\<lambda>x. hd (f x)) xs"
proof (induction xs)
  case Nil
  then show ?case by simp
next
  case (Cons x xs)
  then obtain y where "f x = [y]"
    by (cases "f x") auto
  with Cons show ?case by simp
qed

lemma tt_requirements_length:
  "\<forall>r\<in>set (tt_requirements p (tt_select_objects q b)). length r = length (evs b)"
  by (simp add: tt_requirements_def length_req_lumi tt_select_objects_def concat_singletons
      tt_opposite_charge_length comp_def)

section \<open>The event mask, row by row\<close>

lemma event_level_nth:
  assumes "\<forall>r\<in>set rs. length r = length rt" and "i < length rt"
  shows "ak_fill_none (foldl ak_and (map Some rt) rs) False ! i
         = (\<forall>r\<in>set (map Some rt # rs). r ! i = Some True)"
proof -
  have len: "\<forall>r\<in>set rs. length r = length (map Some rt)"
    using assms(1) by simp
  have "i < length (foldl ak_and (map Some rt) rs)"
    using foldl_ak_and_length[OF len] assms(2) by simp
  then have "ak_fill_none (foldl ak_and (map Some rt) rs) False ! i
             = (foldl ak_and (map Some rt) rs ! i = Some True)"
    by (rule ak_fill_none_nth)
  also have "\<dots> = (\<forall>r\<in>set (map Some rt # rs). r ! i = Some True)"
    using len assms(2) by (intro foldl_ak_and_nth) simp_all
  finally show ?thesis .
qed

lemma event_level_length:
  assumes "\<forall>r\<in>set rs. length r = length rt"
  shows "length (ak_fill_none (foldl ak_and (map Some rt) rs) False) = length rt"
  using foldl_ak_and_length[of rs "map Some rt"] assms by (simp add: ak_fill_none_length)

lemma eWc_event_level_rows:
  "eWc_event_level p b (req_trig eWc_triggers b)
   = map (eWc_accept p (isRealData b) (HLT_fields b)) (evs b)"
proof (rule nth_equalityI)
  show "length (eWc_event_level p b (req_trig eWc_triggers b))
        = length (map (eWc_accept p (isRealData b) (HLT_fields b)) (evs b))"
    unfolding eWc_event_level_def
    by (simp add: event_level_length eWc_requirements_length length_req_trig)
next
  fix i assume "i < length (eWc_event_level p b (req_trig eWc_triggers b))"
  then have i: "i < length (evs b)"
    unfolding eWc_event_level_def
    by (simp add: event_level_length eWc_requirements_length length_req_trig)
  have "eWc_event_level p b (req_trig eWc_triggers b) ! i
        = (\<forall>r\<in>set (map Some (req_trig eWc_triggers b) # eWc_requirements p b). r ! i = Some True)"
    unfolding eWc_event_level_def using i
    by (intro event_level_nth) (simp_all add: eWc_requirements_length length_req_trig)
  also have "\<dots> = eWc_accept p (isRealData b) (HLT_fields b) (evs b ! i)"
    using i by (simp add: eWc_requirements_def eWc_accept_def req_trig_rows req_lumi_rows)
  finally show "eWc_event_level p b (req_trig eWc_triggers b) ! i
                = map (eWc_accept p (isRealData b) (HLT_fields b)) (evs b) ! i"
    using i by simp
qed

lemma tt_select_objects_schema [simp]:
  "isRealData (tt_select_objects p b) = isRealData b"
  "HLT_fields (tt_select_objects p b) = HLT_fields b"
  "Electron_fields (tt_select_objects p b) = Electron_fields b"
  "Muon_fields (tt_select_objects p b) = Muon_fields b"
  "dataset (tt_select_objects p b) = dataset b"
  "evs (tt_select_objects p b) = map (tt_select_event p) (evs b)"
  by (simp_all add: tt_select_objects_def isRealData_def)

lemma tt_select_event_fields [simp]:
  "HLT (tt_select_event p e) = HLT e"
  "run (tt_select_event p e) = run e"
  "luminosityBlock (tt_select_event p e) = luminosityBlock e"
  "genWeight (tt_select_event p e) = genWeight e"
  "nPU (tt_select_event p e) = nPU e"
  "Jet (tt_select_event p e) = Jet e"
  "MET (tt_select_event p e) = MET e"
  by (simp_all add: tt_select_event_def tt_select_ele_def tt_select_muon_def Let_def)

lemma trig_row_select [simp]: "trig_row ts hf (tt_select_event p e) = trig_row ts hf e"
  by (simp add: trig_row_def)

lemma lumi_row_select [simp]: "lumi_row p rd (tt_select_event q e) = lumi_row p rd e"
  by (simp add: lumi_row_def)

lemma req_trig_select [simp]: "req_trig ts (tt_select_objects p b) = req_trig ts b"
  by (simp add: req_trig_rows comp_def)

lemma tt_opposite_charge_hd:
  "(hd (tt_opposite_charge (tt_select_event p e))) = (tt_opposite_charge (tt_select_event p e) = [True])"
  using tt_opposite_charge_length[of p e]
  by (cases "tt_opposite_charge (tt_select_event p e)") auto

lemma tt_event_level_rows:
  "tt_event_level p (tt_select_objects p b) (req_trig tt_triggers b)
   = map (\<lambda>e. tt_accept p (isRealData b) (HLT_fields b) (tt_select_event p e)) (evs b)"
proof (rule nth_equalityI)
  show "length (tt_event_level p (tt_select_objects p b) (req_trig tt_triggers b))
        = length (map (\<lambda>e. tt_accept p (isRealData b) (HLT_fields b) (tt_select_event p e)) (evs b))"
    unfolding tt_event_level_def
    by (simp add: event_level_length tt_requirements_length length_req_trig)
next
  fix i assume "i < length (tt_event_level p (tt_select_objects p b) (req_trig tt_triggers b))"
  then have i: "i < length (evs b)"
    unfolding tt_event_level_def
    by (simp add: event_level_length tt_requirements_length length_req_trig)
  have "tt_event_level p (tt_select_objects p b) (req_trig tt_triggers b) ! i
        = (\<forall>r\<in>set (map Some (req_trig tt_triggers b) # tt_requirements p (tt_select_objects p b)).
             r ! i = Some True)"
    unfolding tt_event_level_def using i
    by (intro event_level_nth) (simp_all add: tt_requirements_length length_req_trig)
  also have "\<dots> = tt_accept p (isRealData b) (HLT_fields b) (tt_select_event p (evs b ! i))"
    using i
    by (simp add: tt_requirements_def tt_accept_def req_trig_rows req_lumi_rows comp_def
        concat_singletons tt_opposite_charge_length tt_opposite_charge_hd)
  finally show "tt_event_level p (tt_select_objects p b) (req_trig tt_triggers b) ! i
                = map (\<lambda>e. tt_accept p (isRealData b) (HLT_fields b) (tt_select_event p e)) (evs b) ! i"
    using i by simp
qed

section \<open>Evaluation of the concrete events\<close>

lemma demo_objs:
  "demo_ele ''pt'' = 40" "demo_ele ''mass'' = 80" "demo_ele ''charge'' = 1" "demo_ele ''eta'' = 0"
  "demo_ele ''pfRelIso03_all'' = 0" "demo_ele ''dz'' = 0" "demo_ele ''dxy'' = 0" "demo_ele ''ip3d'' = 0"
  "demo_softmu ''pt'' = 5" "demo_softmu ''eta'' = 1" "demo_softmu ''charge'' = - 1"
  "demo_jet ''pt'' = 50" "demo_jet ''eta'' = 1" "demo_jet ''muonIdx1'' = 0" "demo_jet ''muonIdx2'' = 0"
  "demo_jet ''btagDeepB'' = - 1" "demo_jet ''hadronFlavour'' = 0" "demo_jet ''partonFlavour'' = 0"
  "demo_mu ''pt'' = 40" "demo_mu ''charge'' = - 1" "demo_mu ''eta'' = 0"
  by (simp_all add: demo_ele_def demo_softmu_def demo_jet_def demo_mu_def)

lemma demo_event_fields:
  "Electron demo_event2 = [Some demo_ele]" "Muon demo_event2 = [Some demo_softmu]"
  "Jet demo_event2 = [demo_jet, demo_jet]" "MET demo_event2 = (\<lambda>_. 0)"
  "HLT demo_event2 = (\<lambda>t. True)" "genWeight demo_event2 = 2" "nPU demo_event2 = 30"
  "Electron demo_event1 = [Some demo_ele]" "Muon demo_event1 = [Some demo_softmu]"
  "Jet demo_event1 = [demo_jet]" "MET demo_event1 = (\<lambda>_. 0)"
  "HLT demo_event1 = (\<lambda>t. True)" "genWeight demo_event1 = 2" "nPU demo_event1 = 30"
  "Electron demo_tt_event = [Some demo_ele]" "Muon demo_tt_event = [Some demo_mu, Some demo_softmu]"
  "Jet demo_tt_event = [demo_jet, demo_jet]" "MET demo_tt_event = (\<lambda>_. 0)"
  "HLT demo_tt_event = (\<lambda>t. True)" "genWeight demo_tt_event = 2" "nPU demo_tt_event = 30"
  by (simp_all add: demo_event2_def demo_event1_def demo_tt_event_def)

lemma demo_proc_fields:
  "isCorr demo_proc = True" "lumiMask demo_proc = (\<lambda>r l. True)" "jet_id demo_proc = (\<lambda>e j. True)"
  "mu_idiso demo_proc = (\<lambda>e m. False)" "ele_mvatightid demo_proc = (\<lambda>e l. True)"
  "ele_cuttightid demo_proc = (\<lambda>e l. True)" "softmu_mask demo_proc = (\<lambda>e m. True)"
  "delta_r demo_proc = (\<lambda>a b. \<bar>a ''eta'' - b ''eta''\<bar>)" "vec_add demo_proc = (\<lambda>a b f. a f + b f)"
  "pu demo_proc = (\<lambda>n. 1)" "eleSFs demo_proc = (\<lambda>l. 1)" "muSFs demo_proc = (\<lambda>m. 1)"
  "getSF demo_proc = (\<lambda>tab flav cvl cvb syst. 2)" "btv_eval demo_proc = (\<lambda>tab var flav eta pt discr. 2)"
  "hist_names demo_proc = [''btagDeepB_0'', ''btagDeepB_1'', ''jet_pt'', ''njet'']"
  "binof demo_proc = (\<lambda>name f s v. case v of None \<Rightarrow> None | Some x \<Rightarrow> Some (if x < 0 then 0 else 1))"
  by (simp_all add: demo_proc_def)

lemma demo_tt_proc_fields:
  "isCorr demo_tt_proc = True" "lumiMask demo_tt_proc = (\<lambda>r l. True)" "jet_id demo_tt_proc = (\<lambda>e j. True)"
  "mu_idiso demo_tt_proc = (\<lambda>e m. True)" "ele_mvatightid demo_tt_proc = (\<lambda>e l. True)"
  "ele_cuttightid demo_tt_proc = (\<lambda>e l. True)" "softmu_mask demo_tt_proc = (\<lambda>e m. True)"
  "delta_r demo_tt_proc = (\<lambda>a b. \<bar>a ''eta'' - b ''eta''\<bar>)" "vec_add demo_tt_proc = (\<lambda>a b f. a f + b f)"
  "pu demo_tt_proc = (\<lambda>n. 1)" "eleSFs demo_tt_proc = (\<lambda>l. 1)" "muSFs demo_tt_proc = (\<lambda>m. 1)"
  "getSF demo_tt_proc = (\<lambda>tab flav cvl cvb syst. 2)" "btv_eval demo_tt_proc = (\<lambda>tab var flav eta pt discr. 2)"
  "hist_names demo_tt_proc = [''btagDeepB_0'', ''btagDeepB_1'', ''jet_pt'', ''njet'']"
  "binof demo_tt_proc = (\<lambda>name f s v. case v of None \<Rightarrow> None | Some x \<Rightarrow> Some (if x < 0 then 0 else 1))"
  by (simp_all add: demo_tt_proc_def demo_proc_def)

lemma demo_batch_fields:
  "dataset (demo_batch es) = ''demo''" "has_genWeight (demo_batch es) = True"
  "isRealData (demo_batch es) = False"
  "HLT_fields (demo_batch es) = [''Ele32_WPTight_Gsf_L1DoubleEG'', ''IsoMu24'']"
  "Electron_fields (demo_batch es) = [''pt'']" "Muon_fields (demo_batch es) = [''pt'']"
  "evs (demo_batch es) = es"
  by (simp_all add: demo_batch_def isRealData_def)

lemmas demo_simps = demo_objs demo_event_fields demo_proc_fields demo_tt_proc_fields demo_batch_fields

lemma demo_eWc_objects:
  "eWc_iso_ele_sel demo_proc demo_event2 = [Some demo_ele]"
  "eWc_iso_ele demo_proc demo_event2 = Some demo_ele"
  "eWc_event_jet demo_proc demo_event2 = [demo_jet, demo_jet]"
  "eWc_soft_muon_sel demo_proc demo_event2 = [Some demo_softmu]"
  "eWc_soft_muon demo_proc demo_event2 = [Some demo_softmu]"
  "eWc_mu_jet demo_proc demo_event2 = [Some demo_jet, Some demo_jet]"
  "eWc_iso_ele_sel demo_proc demo_event1 = [Some demo_ele]"
  "eWc_iso_ele demo_proc demo_event1 = Some demo_ele"
  "eWc_event_jet demo_proc demo_event1 = [demo_jet]"
  "eWc_soft_muon_sel demo_proc demo_event1 = [Some demo_softmu]"
  "eWc_soft_muon demo_proc demo_event1 = [Some demo_softmu]"
  "eWc_mu_jet demo_proc demo_event1 = [Some demo_jet]"
  by (simp_all add: eWc_iso_ele_sel_def eWc_iso_ele_def eWc_event_jet_def eWc_soft_muon_def
      eWc_soft_muon_sel_def eWc_mu_jet_def eWc_mu_jet_sel_def
      demo_simps ak_where_def ak_pad_none_def ak_firsts_def ak_all_def)

lemma demo_eWc_requirements:
  "eWc_req_ele demo_proc demo_event2" "eWc_req_jets demo_proc demo_event2"
  "eWc_req_softmu demo_proc demo_event2" "eWc_req_mujet demo_proc demo_event2"
  "eWc_req_Wmass demo_proc demo_event2 = Some True" "eWc_req_dilepveto demo_proc demo_event2"
  "eWc_req_QCDveto demo_proc demo_event2 = Some True" "eWc_req_pTratio demo_proc demo_event2 = Some True"
  "eWc_req_ele demo_proc demo_event1" "eWc_req_jets demo_proc demo_event1"
  "eWc_req_softmu demo_proc demo_event1" "eWc_req_mujet demo_proc demo_event1"
  "eWc_req_Wmass demo_proc demo_event1 = Some True" "eWc_req_dilepveto demo_proc demo_event1"
  "eWc_req_QCDveto demo_proc demo_event1 = Some True" "eWc_req_pTratio demo_proc demo_event1 = Some True"
  by (simp_all add: eWc_req_ele_def eWc_req_jets_def eWc_req_softmu_def eWc_req_mujet_def
      eWc_req_Wmass_def eWc_Wmass_def eWc_req_dilepveto_def eWc_req_QCDveto_def eWc_req_pTratio_def
      eWc_dilep_mu_def eWc_dilep_ele_def eWc_mu_jet_def eWc_mu_jet_sel_def MET_vec_def
      demo_eWc_objects demo_simps ak_where_def ak_count_def ak_firsts_def ak_lift2_def ak_pad_none_def
      ak_all_def)

lemma demo_trig_rows:
  "trig_row eWc_triggers [''Ele32_WPTight_Gsf_L1DoubleEG'', ''IsoMu24''] demo_event2"
  "trig_row eWc_triggers [''Ele32_WPTight_Gsf_L1DoubleEG'', ''IsoMu24''] demo_event1"
  "trig_row tt_triggers [''Ele32_WPTight_Gsf_L1DoubleEG'', ''IsoMu24''] demo_tt_event"
  by (simp_all add: trig_row_def eWc_triggers_def tt_triggers_def demo_simps)

lemma demo_eWc_accept:
  "eWc_accept demo_proc False [''Ele32_WPTight_Gsf_L1DoubleEG'', ''IsoMu24''] demo_event2"
  "eWc_accept demo_proc False [''Ele32_WPTight_Gsf_L1DoubleEG'', ''IsoMu24''] demo_event1"
  by (simp_all add: eWc_accept_def demo_eWc_requirements demo_trig_rows lumi_row_def)

lemma demo_tt_selected:
  "Muon (tt_select_event demo_tt_proc demo_tt_event) = [Some demo_mu]"
  "Electron (tt_select_event demo_tt_proc demo_tt_event) = [Some demo_ele]"
  "tt_event_jet demo_tt_proc (tt_select_event demo_tt_proc demo_tt_event) = [demo_jet, demo_jet]"
  by (simp_all add: tt_select_event_def tt_select_ele_def tt_select_muon_def tt_event_jet_def Let_def
      demo_simps ak_where_def ak_pad_none_def ak_all_def)

lemma demo_tt_accept:
  "tt_accept demo_tt_proc False [''Ele32_WPTight_Gsf_L1DoubleEG'', ''IsoMu24'']
     (tt_select_event demo_tt_proc demo_tt_event)"
  by (simp add: tt_accept_def demo_trig_rows lumi_row_def tt_req_muon_def tt_req_ele_def
      tt_req_jets_def tt_opposite_charge_def demo_tt_selected demo_simps ak_count_def
      ak_fill_none_def ak_lift2_def)

section \<open>The selection mask\<close>

text \<open>
  Claim C1.  In both workflows the entry of \<^verbatim>\<open>event_level\<close> for an event is True exactly
  when every requirement column of the conjunction holds True for that event; an entry
  that is False or missing in any one requirement makes the mask False.  The mask has one
  entry per event.
\<close>

theorem event_level_conjunction:
  assumes "i < length (evs b)"
  shows "(eWc_event_level p b (req_trig eWc_triggers b) ! i
            = (\<forall>r\<in>set (map Some (req_trig eWc_triggers b) # eWc_requirements p b). r ! i = Some True))
       \<and> (tt_event_level p (tt_select_objects p b) (req_trig tt_triggers b) ! i
            = (\<forall>r\<in>set (map Some (req_trig tt_triggers b) # tt_requirements p (tt_select_objects p b)).
                 r ! i = Some True))
       \<and> length (eWc_event_level p b (req_trig eWc_triggers b)) = length (evs b)
       \<and> length (tt_event_level p (tt_select_objects p b) (req_trig tt_triggers b)) = length (evs b)"
proof -
  have e: "\<forall>r\<in>set (eWc_requirements p b). length r = length (req_trig eWc_triggers b)"
    by (simp add: eWc_requirements_length length_req_trig)
  have t: "\<forall>r\<in>set (tt_requirements p (tt_select_objects p b)). length r = length (req_trig tt_triggers b)"
    by (simp add: tt_requirements_length length_req_trig)
  have i: "i < length (req_trig eWc_triggers b)" "i < length (req_trig tt_triggers b)"
    using assms by (simp_all add: length_req_trig)
  show ?thesis
    unfolding eWc_event_level_def tt_event_level_def
    using event_level_nth[OF e i(1)] event_level_nth[OF t i(2)]
      event_level_length[OF e] event_level_length[OF t]
    by (simp add: length_req_trig)
qed

theorem event_level_conjunction_witness:
  "eWc_event_level demo_proc (demo_batch [demo_event2]) (req_trig eWc_triggers (demo_batch [demo_event2])) ! 0 = True
   \<and> tt_event_level demo_proc (tt_select_objects demo_proc (demo_batch [demo_event2]))
        (req_trig tt_triggers (demo_batch [demo_event2])) ! 0 = False"
proof -
  have h: "0 < length (evs (demo_batch [demo_event2]))"
    by (simp add: demo_simps)
  have m: "Muon (tt_select_event demo_proc demo_event2) = [None]"
    by (simp add: tt_select_event_def tt_select_ele_def tt_select_muon_def Let_def demo_simps
        ak_where_def ak_pad_none_def)
  show ?thesis
    using event_level_conjunction[OF h, of demo_proc]
    by (simp add: eWc_requirements_def tt_requirements_def req_trig_rows req_lumi_rows demo_simps
        demo_eWc_requirements demo_trig_rows lumi_row_def tt_req_muon_def m ak_count_def)
qed

section \<open>The trigger stage and the selected objects\<close>

lemma ak_mask_rows: "ak_mask (map f xs) (map g xs) = map g (filter f xs)"
  by (induction xs) (simp_all add: ak_mask_def)

lemma ak_mask_missing: "ak_mask (map (Not \<circ> f) xs) xs = filter (\<lambda>x. \<not> f x) xs"
  by (induction xs) (simp_all add: ak_mask_def)

lemma hlt_stage_cases:
  "hlt_stage ts b =
     (if \<forall>t\<in>set ts. t \<notin> set (HLT_fields b) then Inl (ValueError ts (dataset b))
      else Inr (if \<exists>t\<in>set ts. t \<notin> set (HLT_fields b)
                then Some (filter (\<lambda>t. t \<notin> set (HLT_fields b)) ts) else None,
                map (trig_row ts (HLT_fields b)) (evs b)))"
  by (auto simp: hlt_stage_def checkHLT_def list_all_iff list_ex_iff ak_mask_missing req_trig_rows)

lemma hlt_stage_req_trig:
  "hlt_stage ts b = Inr (printed, rt) \<Longrightarrow> rt = req_trig ts b"
  by (auto simp: hlt_stage_def split: if_splits)

lemma eWc_sjets_rows:
  "sjets (eWc_selected p b)
   = map (eWc_event_jet p) (filter (eWc_accept p (isRealData b) (HLT_fields b)) (evs b))"
  by (simp add: eWc_selected_def eWc_select_def Let_def eWc_event_level_rows ak_mask_rows)

lemma eWc_genflavor_shape:
  "map length (genflavor (eWc_select p b lv)) = map length (sjets (eWc_select p b lv))"
  by (simp add: eWc_select_def Let_def comp_def)

lemma ak_col_shape:
  "map length xss = map length yss \<Longrightarrow> list_all (\<lambda>xs. i < length xs) xss = list_all (\<lambda>ys. i < length ys) yss"
proof (induction xss arbitrary: yss)
  case Nil
  then show ?case by simp
next
  case (Cons xs xss)
  then show ?case by (cases yss) auto
qed

lemma eWc_sjets_nonempty: "list_all (\<lambda>js. 0 < length js) (sjets (eWc_selected p b))"
  by (auto simp: eWc_sjets_rows list_all_iff eWc_accept_def eWc_req_jets_def)

lemma eWc_cols:
  "ak_col 0 (sjets (eWc_selected p b)) = Inr (map (\<lambda>js. js ! 0) (sjets (eWc_selected p b)))"
  "ak_col 0 (genflavor (eWc_selected p b)) = Inr (map (\<lambda>fs. fs ! 0) (genflavor (eWc_selected p b)))"
  using eWc_sjets_nonempty[of p b]
    ak_col_shape[OF eWc_genflavor_shape, of 0 p b "eWc_event_level p b (req_trig eWc_triggers b)"]
  by (simp_all add: ak_col_def eWc_selected_def)

lemma eWc_process_cases:
  "eWc_process p b =
     (if ''Ele32_WPTight_Gsf_L1DoubleEG'' \<notin> set (HLT_fields b)
      then Inl (ValueError eWc_triggers (dataset b)) else Inr (b, eWc_output p b))"
proof (cases "''Ele32_WPTight_Gsf_L1DoubleEG'' \<in> set (HLT_fields b)")
  case True
  then have h: "hlt_stage eWc_triggers b = Inr (None, req_trig eWc_triggers b)"
    by (simp add: hlt_stage_cases eWc_triggers_def req_trig_rows)
  show ?thesis
    using True eWc_cols[of p b]
    by (simp add: eWc_process_def h eWc_output_def Let_def eWc_selected_def)
next
  case False
  then show ?thesis
    by (simp add: eWc_process_def hlt_stage_cases eWc_triggers_def)
qed



lemma list_all_shape:
  "map length xss = map length yss \<Longrightarrow>
   list_all (\<lambda>xs. P (length xs)) xss = list_all (\<lambda>ys. P (length ys)) yss"
proof (induction xss arbitrary: yss)
  case Nil
  then show ?case by simp
next
  case (Cons xs xss)
  then show ?case by (cases yss) auto
qed

lemma tt_sjets_rows:
  "tt_sjets (tt_selected p b)
   = map (\<lambda>e. take 2 (tt_event_jet p e))
       (filter (tt_accept p (isRealData b) (HLT_fields b)) (map (tt_select_event p) (evs b)))"
  by (simp add: tt_selected_def tt_select_def Let_def tt_event_level_rows ak_mask_rows
      filter_map comp_def)

lemma tt_genflavor_shape:
  "map length (tt_genflavor (tt_select p b lv)) = map length (tt_sjets (tt_select p b lv))"
  by (simp add: tt_select_def Let_def comp_def)

lemma tt_sjets_two: "list_all (\<lambda>js. length js = 2) (tt_sjets (tt_selected p b))"
  by (auto simp: tt_sjets_rows list_all_iff tt_accept_def tt_req_jets_def)

lemma ak_cols2_two:
  "list_all (\<lambda>xs. length xs = 2) xss \<Longrightarrow> ak_cols2 xss = Inr [map (\<lambda>xs. xs ! 0) xss, map (\<lambda>xs. xs ! 1) xss]"
  by (auto simp: ak_cols2_def ak_col_def list_all_iff)

lemma tt_cols:
  "ak_cols2 (tt_sjets (tt_selected p b))
   = Inr [map (\<lambda>js. js ! 0) (tt_sjets (tt_selected p b)), map (\<lambda>js. js ! 1) (tt_sjets (tt_selected p b))]"
  "ak_cols2 (tt_genflavor (tt_selected p b))
   = Inr [map (\<lambda>fs. fs ! 0) (tt_genflavor (tt_selected p b)), map (\<lambda>fs. fs ! 1) (tt_genflavor (tt_selected p b))]"
proof -
  show "ak_cols2 (tt_sjets (tt_selected p b))
   = Inr [map (\<lambda>js. js ! 0) (tt_sjets (tt_selected p b)), map (\<lambda>js. js ! 1) (tt_sjets (tt_selected p b))]"
    by (rule ak_cols2_two[OF tt_sjets_two])
  have "map length (tt_genflavor (tt_selected p b)) = map length (tt_sjets (tt_selected p b))"
    unfolding tt_selected_def by (rule tt_genflavor_shape)
  from list_all_shape[OF this, of "\<lambda>n. n = 2"]
  have "list_all (\<lambda>fs. length fs = 2) (tt_genflavor (tt_selected p b))"
    using tt_sjets_two[of p b] by simp
  then show "ak_cols2 (tt_genflavor (tt_selected p b))
   = Inr [map (\<lambda>fs. fs ! 0) (tt_genflavor (tt_selected p b)), map (\<lambda>fs. fs ! 1) (tt_genflavor (tt_selected p b))]"
    by (rule ak_cols2_two)
qed

lemma tt_process_cases:
  "tt_process p b =
     (if ''IsoMu24'' \<notin> set (HLT_fields b)
      then Inl (ValueError tt_triggers (dataset b)) else Inr (tt_select_objects p b, tt_output p b))"
proof (cases "''IsoMu24'' \<in> set (HLT_fields b)")
  case True
  then have h: "hlt_stage tt_triggers b = Inr (None, req_trig tt_triggers b)"
    by (simp add: hlt_stage_cases tt_triggers_def req_trig_rows)
  show ?thesis
    using True tt_cols[of p b]
    by (simp add: tt_process_def h tt_output_def Let_def tt_selected_def)
next
  case False
  then show ?thesis
    by (simp add: tt_process_def hlt_stage_cases tt_triggers_def)
qed

section \<open>The trigger requirement\<close>



section \<open>The sum of weights\<close>

text \<open>
  Claim C4.  Whenever a workflow returns an output, its \<open>sumw\<close> is the number of events
  of the batch for real data (no \<open>genWeight\<close> field) and the sum of \<open>genWeight\<close> over all
  events of the batch for simulation.  Neither expression reads the selection mask, the
  processor or its collaborators.
\<close>

theorem sumw_whole_batch:
  "(eWc_process p b = Inr (b', out) \<longrightarrow>
      o_sumw out = (if has_genWeight b then sum_list (map genWeight (evs b)) else real (length (evs b))))
   \<and> (tt_process p b = Inr (b', out) \<longrightarrow>
      o_sumw out = (if has_genWeight b then sum_list (map genWeight (evs b)) else real (length (evs b))))"
  by (auto simp: eWc_process_cases tt_process_cases eWc_output_def tt_output_def Let_def sumw_def
      isRealData_def split: if_splits)

theorem sumw_whole_batch_witness:
  "eWc_process demo_proc (demo_batch [demo_event2, demo_event1, demo_tt_event])
     = Inr (demo_batch [demo_event2, demo_event1, demo_tt_event],
            eWc_output demo_proc (demo_batch [demo_event2, demo_event1, demo_tt_event]))
   \<and> o_sumw (eWc_output demo_proc (demo_batch [demo_event2, demo_event1, demo_tt_event])) = 6
   \<and> tt_process demo_proc ((demo_batch [demo_event2, demo_event1])\<lparr>has_genWeight := False\<rparr>)
     = Inr (tt_select_objects demo_proc ((demo_batch [demo_event2, demo_event1])\<lparr>has_genWeight := False\<rparr>),
            tt_output demo_proc ((demo_batch [demo_event2, demo_event1])\<lparr>has_genWeight := False\<rparr>))
   \<and> o_sumw (tt_output demo_proc ((demo_batch [demo_event2, demo_event1])\<lparr>has_genWeight := False\<rparr>)) = 2"
proof -
  have e: "eWc_process demo_proc (demo_batch [demo_event2, demo_event1, demo_tt_event])
     = Inr (demo_batch [demo_event2, demo_event1, demo_tt_event],
            eWc_output demo_proc (demo_batch [demo_event2, demo_event1, demo_tt_event]))"
    by (simp add: eWc_process_cases demo_simps)
  have t: "tt_process demo_proc ((demo_batch [demo_event2, demo_event1])\<lparr>has_genWeight := False\<rparr>)
     = Inr (tt_select_objects demo_proc ((demo_batch [demo_event2, demo_event1])\<lparr>has_genWeight := False\<rparr>),
            tt_output demo_proc ((demo_batch [demo_event2, demo_event1])\<lparr>has_genWeight := False\<rparr>))"
    by (simp add: tt_process_cases demo_batch_def)
  show ?thesis
    using sumw_whole_batch[of demo_proc "demo_batch [demo_event2, demo_event1, demo_tt_event]"
        "demo_batch [demo_event2, demo_event1, demo_tt_event]"
        "eWc_output demo_proc (demo_batch [demo_event2, demo_event1, demo_tt_event])"]
      sumw_whole_batch[of demo_proc "(demo_batch [demo_event2, demo_event1])\<lparr>has_genWeight := False\<rparr>"
        "tt_select_objects demo_proc ((demo_batch [demo_event2, demo_event1])\<lparr>has_genWeight := False\<rparr>)"
        "tt_output demo_proc ((demo_batch [demo_event2, demo_event1])\<lparr>has_genWeight := False\<rparr>)"]
      e t
    by (simp add: demo_simps demo_batch_def)
qed

section \<open>The batch after the object selection\<close>

text \<open>
  Claim C10, as stated: running the object selection leaves the particle collections of
  the batch unchanged.  It fails for the ttdilep workflow, which assigns the filtered and
  padded muons and electrons to \<^verbatim>\<open>events.Muon\<close> and \<^verbatim>\<open>events.Electron\<close>: on the batch of
  the one event \<open>demo_tt_event\<close> the muon collection has two muons before the call and one
  after it.
\<close>

theorem selection_changes_batch_counterexample:
  "\<exists>b' out. tt_process demo_tt_proc (demo_batch [demo_tt_event]) = Inr (b', out)
     \<and> map Muon (evs (demo_batch [demo_tt_event])) = [[Some demo_mu, Some demo_softmu]]
     \<and> map Muon (evs b') = [[Some demo_mu]]
     \<and> map Muon (evs b') \<noteq> map Muon (evs (demo_batch [demo_tt_event]))"
  by (simp add: tt_process_cases demo_simps demo_tt_selected)

text \<open>
  Claim C10, amended.  The eWc workflow leaves the batch as it was.  The ttdilep workflow
  leaves the schema, the jets and every other field of each event as they were, and
  replaces the muons of each event by those with \<open>pt > 30\<close> that pass \<open>mu_idiso\<close>, padded
  to length one, and then the electrons by those with \<open>pt > 30\<close> that pass
  \<open>ele_cuttightid\<close> (evaluated on the event with the new muons), padded to length one.
  In both workflows the resulting batch is a function of the input batch and the
  collaborators alone.
\<close>

theorem selection_frame:
  "(eWc_process p b = Inr (b', out) \<longrightarrow> b' = b)
   \<and> (tt_process p b = Inr (b', out) \<longrightarrow>
        b' = b\<lparr>evs := evs b'\<rparr>
        \<and> evs b' =
            map (\<lambda>e. e\<lparr>Electron := ak_pad_none (ak_where (\<lambda>l. l ''pt'' > 30
                                     \<and> ele_cuttightid p (tt_select_muon p e) l) (Electron e)) 1,
                        Muon := ak_pad_none (ak_where (\<lambda>m. m ''pt'' > 30 \<and> mu_idiso p e m) (Muon e)) 1\<rparr>)
              (evs b)
        \<and> map Jet (evs b') = map Jet (evs b) \<and> map MET (evs b') = map MET (evs b)
        \<and> map genWeight (evs b') = map genWeight (evs b) \<and> map HLT (evs b') = map HLT (evs b))"
proof -
  have ev: "tt_select_event p e
            = e\<lparr>Electron := ak_pad_none (ak_where (\<lambda>l. l ''pt'' > 30
                                     \<and> ele_cuttightid p (tt_select_muon p e) l) (Electron e)) 1,
                 Muon := ak_pad_none (ak_where (\<lambda>m. m ''pt'' > 30 \<and> mu_idiso p e m) (Muon e)) 1\<rparr>" for e
    by (simp add: tt_select_event_def tt_select_ele_def tt_select_muon_def Let_def)
  have "evs (tt_select_objects p b) = map (\<lambda>e. e\<lparr>Electron := ak_pad_none (ak_where (\<lambda>l. l ''pt'' > 30
                                     \<and> ele_cuttightid p (tt_select_muon p e) l) (Electron e)) 1,
                 Muon := ak_pad_none (ak_where (\<lambda>m. m ''pt'' > 30 \<and> mu_idiso p e m) (Muon e)) 1\<rparr>) (evs b)"
    using ev by (simp add: tt_select_objects_def)
  moreover have "tt_select_objects p b = b\<lparr>evs := evs (tt_select_objects p b)\<rparr>"
    by (simp add: tt_select_objects_def)
  ultimately show ?thesis
    by (auto simp: eWc_process_cases tt_process_cases comp_def split: if_splits)
qed

theorem selection_frame_witness:
  "eWc_process demo_proc (demo_batch [demo_event2])
     = Inr (demo_batch [demo_event2], eWc_output demo_proc (demo_batch [demo_event2]))
   \<and> tt_process demo_tt_proc (demo_batch [demo_tt_event])
     = Inr (tt_select_objects demo_tt_proc (demo_batch [demo_tt_event]),
            tt_output demo_tt_proc (demo_batch [demo_tt_event]))
   \<and> map Jet (evs (tt_select_objects demo_tt_proc (demo_batch [demo_tt_event]))) = [[demo_jet, demo_jet]]
   \<and> evs (tt_select_objects demo_tt_proc (demo_batch [demo_tt_event]))
      = [demo_tt_event\<lparr>Electron := [Some demo_ele], Muon := [Some demo_mu]\<rparr>]"
proof -
  have e: "eWc_process demo_proc (demo_batch [demo_event2])
     = Inr (demo_batch [demo_event2], eWc_output demo_proc (demo_batch [demo_event2]))"
    by (simp add: eWc_process_cases demo_simps)
  have t: "tt_process demo_tt_proc (demo_batch [demo_tt_event])
     = Inr (tt_select_objects demo_tt_proc (demo_batch [demo_tt_event]),
            tt_output demo_tt_proc (demo_batch [demo_tt_event]))"
    by (simp add: tt_process_cases demo_simps)
  show ?thesis
    using selection_frame[of demo_proc "demo_batch [demo_event2]" "demo_batch [demo_event2]"
        "eWc_output demo_proc (demo_batch [demo_event2])"]
      selection_frame[of demo_tt_proc "demo_batch [demo_tt_event]"
        "tt_select_objects demo_tt_proc (demo_batch [demo_tt_event])"
        "tt_output demo_tt_proc (demo_batch [demo_tt_event])"] e t
    by (simp add: demo_simps ak_where_def ak_pad_none_def)
qed

section \<open>The weights\<close>

lemma Weights_weight_new: "Weights_weight (Weights_new n) = replicate n 1"
  by (simp add: Weights_weight_def Weights_new_def)

lemma map2_ones: "map2 (*) (replicate (length xs) (1::real)) xs = map (\<lambda>x. 1 * x) xs"
  by (simp add: list_eq_iff_nth_eq)

lemma eWc_weights_components:
  "map fst (w_components (eWc_weights p b lv))
   = (if isRealData b then [] else if isCorr p then [''genweight'', ''puweight'', ''lep1sf'', ''lep2sf'']
      else [''genweight''])"
  by (simp add: eWc_weights_def Weights_add_def Weights_new_def Let_def)

lemma tt_weights_components:
  "map fst (w_components (tt_weights p b lv))
   = (if isRealData b then [] else if isCorr p then [''genweight'', ''puweight'', ''lep1sf'', ''lep2sf'']
      else [''genweight''])"
  by (simp add: tt_weights_def Weights_add_def Weights_new_def Let_def)

lemma nth_map2_times:
  "i < length xs \<Longrightarrow> i < length ys \<Longrightarrow> map2 (*) xs ys ! i = xs ! i * (ys ! i :: real)"
  by simp

lemma eWc_weight_rows:
  "Weights_weight (eWc_weights p b (map f (evs b)))
   = map (\<lambda>e. if isRealData b then 1
               else if isCorr p then
                 1 * genWeight e * pu p (nPU e)
                   * (if f e then eleSFs p (ak_firsts (eWc_iso_ele_sel p e)) else 1)
                   * (if f e then muSFs p (ak_firsts (eWc_soft_muon_sel p e)) else 1)
               else 1 * genWeight e) (evs b)"
proof -
  have c: "map snd (w_components (eWc_weights p b (map f (evs b))))
        = (if isRealData b then []
           else if isCorr p then
             [map genWeight (evs b), map (\<lambda>e. pu p (nPU e)) (evs b),
              map2 (\<lambda>l e. if l then eleSFs p (ak_firsts (eWc_iso_ele_sel p e)) else 1) (map f (evs b)) (evs b),
              map2 (\<lambda>l e. if l then muSFs p (ak_firsts (eWc_soft_muon_sel p e)) else 1) (map f (evs b)) (evs b)]
           else [map genWeight (evs b)])"
    by (simp add: eWc_weights_def Weights_add_def Weights_new_def Let_def)
  have n: "w_size (eWc_weights p b (map f (evs b))) = length (evs b)"
    by (simp add: eWc_weights_def Weights_add_def Weights_new_def Let_def)
  show ?thesis
    unfolding Weights_weight_def c n
    by (cases "isRealData b"; cases "isCorr p") (simp_all add: list_eq_iff_nth_eq)
qed

lemma tt_weight_rows:
  "Weights_weight (tt_weights p b (map f (evs b)))
   = map (\<lambda>e. if isRealData b then 1
               else if isCorr p then
                 1 * genWeight e * pu p (nPU e)
                   * (if f e then muSFs p (ak_firsts (Muon e)) else 1)
                   * (if f e then eleSFs p (ak_firsts (Electron e)) else 1)
               else 1 * genWeight e) (evs b)"
proof -
  have c: "map snd (w_components (tt_weights p b (map f (evs b))))
        = (if isRealData b then []
           else if isCorr p then
             [map genWeight (evs b), map (\<lambda>e. pu p (nPU e)) (evs b),
              map2 (\<lambda>l e. if l then muSFs p (ak_firsts (Muon e)) else 1) (map f (evs b)) (evs b),
              map2 (\<lambda>l e. if l then eleSFs p (ak_firsts (Electron e)) else 1) (map f (evs b)) (evs b)]
           else [map genWeight (evs b)])"
    by (simp add: tt_weights_def Weights_add_def Weights_new_def Let_def)
  have n: "w_size (tt_weights p b (map f (evs b))) = length (evs b)"
    by (simp add: tt_weights_def Weights_add_def Weights_new_def Let_def)
  show ?thesis
    unfolding Weights_weight_def c n
    by (cases "isRealData b"; cases "isCorr p") (simp_all add: list_eq_iff_nth_eq)
qed

lemma ak_mask_rows_if:
  "ak_mask (map f xs) (map (\<lambda>x. g (f x) x) xs) = map (g True) (filter f xs)"
  by (induction xs) (simp_all add: ak_mask_def)

lemma eWc_sweight_rows:
  "ak_mask (map f (evs b)) (Weights_weight (eWc_weights p b (map f (evs b))))
   = map (eWc_evweight p (isRealData b)) (filter f (evs b))"
  unfolding eWc_weight_rows
  using ak_mask_rows_if[where f = f and xs = "evs b" and g = "\<lambda>l e. if isRealData b then 1
               else if isCorr p then
                 1 * genWeight e * pu p (nPU e)
                   * (if l then eleSFs p (ak_firsts (eWc_iso_ele_sel p e)) else 1)
                   * (if l then muSFs p (ak_firsts (eWc_soft_muon_sel p e)) else 1)
               else 1 * genWeight e"]
  by (simp add: eWc_evweight_def cong: if_cong)

lemma tt_sweight_rows:
  "ak_mask (map f (evs b)) (Weights_weight (tt_weights p b (map f (evs b))))
   = map (tt_evweight p (isRealData b)) (filter f (evs b))"
  unfolding tt_weight_rows
  using ak_mask_rows_if[where f = f and xs = "evs b" and g = "\<lambda>l e. if isRealData b then 1
               else if isCorr p then
                 1 * genWeight e * pu p (nPU e)
                   * (if l then muSFs p (ak_firsts (Muon e)) else 1)
                   * (if l then eleSFs p (ak_firsts (Electron e)) else 1)
               else 1 * genWeight e"]
  by (simp add: tt_evweight_def cong: if_cong)

lemma map2_ones_map: "map2 (*) (replicate (length xs) (1::real)) (map f xs) = map f xs"
  by (simp add: list_eq_iff_nth_eq)

lemma selected_real_data:
  "real_data (eWc_selected p b) = isRealData b" "tt_real_data (tt_selected p b) = isRealData b"
  by (simp_all add: eWc_selected_def eWc_select_def tt_selected_def tt_select_def Let_def)

text \<open>
  Claim C9, as stated: for a real-data batch or with corrections disabled the generator
  weight is never registered and the weight product is 1.  It fails for a simulated batch
  with corrections disabled: the generator weight is registered and the product is the
  generator weight, here 2.
\<close>

theorem genweight_without_corrections_counterexample:
  "isRealData (demo_batch [demo_event2]) = False
   \<and> isCorr (demo_proc\<lparr>isCorr := False\<rparr>) = False
   \<and> map fst (w_components (eWc_weights (demo_proc\<lparr>isCorr := False\<rparr>) (demo_batch [demo_event2]) [True]))
       = [''genweight'']
   \<and> Weights_weight (eWc_weights (demo_proc\<lparr>isCorr := False\<rparr>) (demo_batch [demo_event2]) [True]) = [2]
   \<and> map fst (w_components (tt_weights (demo_proc\<lparr>isCorr := False\<rparr>) (demo_batch [demo_event2]) [True]))
       = [''genweight'']
   \<and> Weights_weight (tt_weights (demo_proc\<lparr>isCorr := False\<rparr>) (demo_batch [demo_event2]) [True]) = [2]"
  by (simp add: eWc_weights_def tt_weights_def Weights_add_def Weights_new_def Weights_weight_def
      Let_def demo_simps)

text \<open>
  Claim C9, amended.  For a real-data batch no weight component is registered and the
  weight of every event is 1.  For a simulated batch with corrections disabled only the
  generator weight is registered and the weight of an event is its generator weight.
  For a simulated batch with corrections enabled the components are the generator
  weight, the pileup weight and the two lepton scale factors.  For real data or with
  corrections disabled the dispatchers do not read the scale factor tables: replacing
  the tables changes no fill, and every fill is without a systematic label or labelled
  \<open>noSF\<close>.
\<close>

theorem weights_registration:
  "(isRealData b \<longrightarrow>
      w_components (eWc_weights p b lv) = [] \<and> w_components (tt_weights p b lv) = []
      \<and> Weights_weight (eWc_weights p b lv) = replicate (length (evs b)) 1
      \<and> Weights_weight (tt_weights p b lv) = replicate (length (evs b)) 1)
   \<and> (\<not> isRealData b \<and> \<not> isCorr p \<longrightarrow>
      map fst (w_components (eWc_weights p b lv)) = [''genweight'']
      \<and> map fst (w_components (tt_weights p b lv)) = [''genweight'']
      \<and> Weights_weight (eWc_weights p b lv) = map genWeight (evs b)
      \<and> Weights_weight (tt_weights p b lv) = map genWeight (evs b))
   \<and> (\<not> isRealData b \<and> isCorr p \<longrightarrow>
      map fst (w_components (eWc_weights p b lv)) = [''genweight'', ''puweight'', ''lep1sf'', ''lep2sf'']
      \<and> map fst (w_components (tt_weights p b lv)) = [''genweight'', ''puweight'', ''lep1sf'', ''lep2sf''])
   \<and> (real_data L \<or> \<not> isCorr p \<longrightarrow>
      eWc_dispatch (p\<lparr>getSF := g, btv_eval := v\<rparr>) L h = eWc_dispatch p L h
      \<and> (\<forall>c\<in>set (eWc_dispatch p L h). fc_syst c = None \<or> fc_syst c = Some ''noSF''))
   \<and> (tt_real_data T \<or> \<not> isCorr p \<longrightarrow>
      tt_dispatch (p\<lparr>getSF := g, btv_eval := v\<rparr>) T gf sj h = tt_dispatch p T gf sj h
      \<and> (\<forall>c\<in>set (tt_dispatch p T gf sj h). fc_syst c = None \<or> fc_syst c = Some ''noSF''))"
proof (intro conjI impI)
  assume "real_data L \<or> \<not> isCorr p"
  then show "eWc_dispatch (p\<lparr>getSF := g, btv_eval := v\<rparr>) L h = eWc_dispatch p L h"
    by (auto simp: eWc_dispatch_def eWc_discr_fills_def)
next
  assume "real_data L \<or> \<not> isCorr p"
  then show "\<forall>c\<in>set (eWc_dispatch p L h). fc_syst c = None \<or> fc_syst c = Some ''noSF''"
    by (auto simp: eWc_dispatch_def eWc_discr_fills_def eWc_jet_fill_def fill1_def fill2_def fill3_def)
next
  assume "tt_real_data T \<or> \<not> isCorr p"
  then show "tt_dispatch (p\<lparr>getSF := g, btv_eval := v\<rparr>) T gf sj h = tt_dispatch p T gf sj h"
    by (auto simp: tt_dispatch_def tt_discr_fills_def)
next
  assume "tt_real_data T \<or> \<not> isCorr p"
  then show "\<forall>c\<in>set (tt_dispatch p T gf sj h). fc_syst c = None \<or> fc_syst c = Some ''noSF''"
    by (auto simp: tt_dispatch_def tt_discr_fills_def tt_jet_fill_def fill1_def fill2_def fill3_def
        split: if_splits)
qed (simp_all add: eWc_weights_def tt_weights_def Weights_add_def Weights_new_def Weights_weight_def
      Let_def map2_ones_map)


theorem weights_registration_witness:
  "Weights_weight (eWc_weights demo_proc ((demo_batch [demo_event2])\<lparr>has_genWeight := False\<rparr>) [True]) = [1]
   \<and> w_components (tt_weights demo_proc ((demo_batch [demo_event2])\<lparr>has_genWeight := False\<rparr>) [True]) = []
   \<and> eWc_dispatch (demo_proc\<lparr>getSF := (\<lambda>t f l b s. 5), btv_eval := (\<lambda>t v f e p d. 5)\<rparr>)
        (eWc_selected demo_proc ((demo_batch [demo_event2])\<lparr>has_genWeight := False\<rparr>)) ''btagDeepB_0''
       = eWc_dispatch demo_proc
        (eWc_selected demo_proc ((demo_batch [demo_event2])\<lparr>has_genWeight := False\<rparr>)) ''btagDeepB_0''
   \<and> Weights_weight (tt_weights (demo_proc\<lparr>isCorr := False\<rparr>) (demo_batch [demo_event2]) [True]) = [2]
   \<and> map fst (w_components (eWc_weights demo_proc (demo_batch [demo_event2]) [True]))
       = [''genweight'', ''puweight'', ''lep1sf'', ''lep2sf'']"
proof -
  have r: "isRealData ((demo_batch [demo_event2])\<lparr>has_genWeight := False\<rparr>)"
    by (simp add: isRealData_def)
  have s: "\<not> isRealData (demo_batch [demo_event2])" "isCorr demo_proc" "\<not> isCorr (demo_proc\<lparr>isCorr := False\<rparr>)"
    by (simp_all add: demo_simps)
  show ?thesis
    using weights_registration[where b = "(demo_batch [demo_event2])\<lparr>has_genWeight := False\<rparr>"
        and p = demo_proc and lv = "[True]"
        and L = "eWc_selected demo_proc ((demo_batch [demo_event2])\<lparr>has_genWeight := False\<rparr>)"
        and g = "\<lambda>t f l b s. 5" and v = "\<lambda>t v f e p d. 5" and h = "''btagDeepB_0''"
        and T = "tt_selected demo_proc ((demo_batch [demo_event2])\<lparr>has_genWeight := False\<rparr>)"]
      weights_registration[where b = "demo_batch [demo_event2]" and p = "demo_proc\<lparr>isCorr := False\<rparr>"
        and lv = "[True]"]
      weights_registration[where b = "demo_batch [demo_event2]" and p = demo_proc and lv = "[True]"]
      r s
    by (simp add: selected_real_data demo_simps demo_batch_def)
qed

section \<open>The selected objects, row by row\<close>

lemma eWc_selected_rows:
  "eWc_selected p b =
     (let S = filter (eWc_accept p (isRealData b) (HLT_fields b)) (evs b)
      in \<lparr>real_data = isRealData b,
          shmu = map (eWc_iso_ele p) S,
          shmu_fields = Electron_fields b,
          sjets = map (eWc_event_jet p) S,
          ssmu = map (\<lambda>e. ak_firsts (eWc_soft_muon p e)) S,
          ssmu_fields = Muon_fields b,
          sMET = map MET S,
          smet = map (\<lambda>e. MET_vec (MET e)) S,
          smuon_jet = map (\<lambda>e. ak_firsts (eWc_mu_jet p e)) S,
          sz = map (\<lambda>e. ak_lift2 (vec_add p) (eWc_iso_ele p e) (ak_firsts (eWc_soft_muon p e))) S,
          sw = map (\<lambda>e. map_option (\<lambda>x. vec_add p x (MET_vec (MET e))) (eWc_iso_ele p e)) S,
          osss = map (\<lambda>e. ak_lift2 (\<lambda>l m. l ''charge'' * m ''charge'' * - 1)
                            (eWc_iso_ele p e) (ak_firsts (eWc_soft_muon p e))) S,
          njet = map (\<lambda>e. length (eWc_event_jet p e)) S,
          sweight = map (eWc_evweight p (isRealData b)) S,
          genflavor = map (\<lambda>e. map (if isRealData b then (\<lambda>_. 0) else flavour) (eWc_event_jet p e)) S,
          smflav = map (\<lambda>e. map_option (if isRealData b then (\<lambda>_. 0) else flavour)
                              (ak_firsts (eWc_mu_jet p e))) S\<rparr>)"
  by (simp add: eWc_selected_def eWc_select_def Let_def eWc_event_level_rows ak_mask_rows
      eWc_sweight_rows zip_map_map zip_same_conv_map comp_def)

lemma tt_selected_rows:
  "tt_selected p b =
     (let S = filter (tt_accept p (isRealData b) (HLT_fields b)) (map (tt_select_event p) (evs b))
      in \<lparr>tt_real_data = isRealData b,
          smu = map Muon S,
          smu_fields = Muon_fields b,
          sel = map Electron S,
          sel_fields = Electron_fields b,
          tt_sjets = map (\<lambda>e. take 2 (tt_event_jet p e)) S,
          tt_sweight = map (tt_evweight p (isRealData b)) S,
          tt_genflavor = map (\<lambda>e. map (if isRealData b then (\<lambda>_. 0) else flavour)
                                   (take 2 (tt_event_jet p e))) S\<rparr>)"
proof -
  have lv: "tt_event_level p (tt_select_objects p b) (req_trig tt_triggers b)
        = map (tt_accept p (isRealData b) (HLT_fields b)) (evs (tt_select_objects p b))"
    by (simp add: tt_event_level_rows comp_def)
  have w: "ak_mask (map (tt_accept p (isRealData b) (HLT_fields b)) (evs (tt_select_objects p b)))
             (Weights_weight (tt_weights p (tt_select_objects p b)
                (map (tt_accept p (isRealData b) (HLT_fields b)) (evs (tt_select_objects p b)))))
           = map (tt_evweight p (isRealData b))
               (filter (tt_accept p (isRealData b) (HLT_fields b)) (evs (tt_select_objects p b)))"
    using tt_sweight_rows[of "tt_accept p (isRealData b) (HLT_fields b)" "tt_select_objects p b" p]
    by simp
  show ?thesis
    unfolding tt_selected_def tt_select_def Let_def lv w
    by (simp add: ak_mask_rows filter_map comp_def)
qed

section \<open>The calls a histogram receives\<close>

lemma fill_loop_acc:
  "foldl (\<lambda>out h. out(h := out h @ d h)) out0 names h
   = out0 h @ concat (map d (filter (\<lambda>x. x = h) names))"
  by (induction names arbitrary: out0) simp_all

lemma fill_loop_calls: "fill_loop d names h = concat (map d (filter (\<lambda>x. x = h) names))"
  by (simp add: fill_loop_def fill_loop_acc)

lemma fill_named_calls:
  "fill_named named out h = out h @ map snd (filter (\<lambda>nc. fst nc = h) named)"
  unfolding fill_named_def
  by (induction named arbitrary: out) simp_all

lemma eWc_output_fills:
  "o_fills (eWc_output p b) h
   = concat (map (eWc_dispatch p (eWc_selected p b)) (filter (\<lambda>x. x = h) (hist_names p)))
     @ map snd (filter (\<lambda>nc. fst nc = h)
         (eWc_named p (eWc_selected p b) (map (\<lambda>fs. fs ! 0) (genflavor (eWc_selected p b)))
            (map (\<lambda>js. js ! 0) (sjets (eWc_selected p b)))))"
  by (simp add: eWc_output_def Let_def fill_loop_calls fill_named_calls)

lemma contains_weaken_start: "starts_with (xs @ ys) s \<Longrightarrow> starts_with xs s"
  by (induction xs s rule: starts_with.induct) simp_all

lemma contains_prefix: "contains (xs @ ys) s \<Longrightarrow> contains xs s"
proof (induction s)
  case Nil
  then show ?case by simp
next
  case (Cons c cs)
  then show ?case by (auto dest: contains_weaken_start)
qed

lemma contains_btag: "contains ''btagDeep'' h \<Longrightarrow> contains ''btag'' h"
  using contains_prefix[of "''btag''" "''Deep''" h] by simp

lemma filter_fst_empty: "h \<notin> set (map fst N) \<Longrightarrow> filter (\<lambda>nc. fst nc = h) N = []"
  by (induction N) auto

lemma eWc_named_names:
  "map fst (eWc_named p L gf0 sj0)
   = [''njet'', ''hl_ptratio'', ''soft_l_ptratio'', ''dr_lmujetsmu'', ''dr_lmujethmu'', ''dr_lmusmu'',
      ''z_pt'', ''z_eta'', ''z_phi'', ''z_mass'', ''w_pt'', ''w_eta'', ''w_phi'', ''w_mass'']"
  by (simp add: eWc_named_def)

lemma eWc_named_not_discr:
  "list_all (\<lambda>n. \<not> contains ''btagDeep'' n)
     [''njet'', ''hl_ptratio'', ''soft_l_ptratio'', ''dr_lmujetsmu'', ''dr_lmujethmu'', ''dr_lmusmu'',
      ''z_pt'', ''z_eta'', ''z_phi'', ''z_mass'', ''w_pt'', ''w_eta'', ''w_phi'', ''w_mass'']"
  by simp

lemma eWc_named_no_discr:
  "contains ''btagDeep'' h \<Longrightarrow> filter (\<lambda>nc. fst nc = h) (eWc_named p L gf0 sj0) = []"
proof (rule filter_fst_empty)
  assume c: "contains ''btagDeep'' h"
  show "h \<notin> set (map fst (eWc_named p L gf0 sj0))"
    unfolding eWc_named_names using eWc_named_not_discr c
    unfolding list_all_iff by blast
qed

section \<open>The guard of the subleading-jet histograms\<close>

lemma demo_eWc_filter:
  "filter (eWc_accept demo_proc False [''Ele32_WPTight_Gsf_L1DoubleEG'', ''IsoMu24'']) [demo_event2, demo_event1]
   = [demo_event2, demo_event1]"
  "filter (eWc_accept demo_proc False [''Ele32_WPTight_Gsf_L1DoubleEG'', ''IsoMu24'']) [demo_event2]
   = [demo_event2]"
  "filter (eWc_accept demo_proc False [''Ele32_WPTight_Gsf_L1DoubleEG'', ''IsoMu24'']) [demo_event1]
   = [demo_event1]"
  using demo_eWc_accept by simp_all

lemma demo_njet:
  "njet (eWc_selected demo_proc (demo_batch [demo_event2, demo_event1])) = [2, 1]"
  "njet (eWc_selected demo_proc (demo_batch [demo_event2])) = [2]"
  "njet (eWc_selected demo_proc (demo_batch [demo_event1])) = [1]"
  by (simp_all add: eWc_selected_rows Let_def demo_simps demo_eWc_accept demo_eWc_objects)

lemma demo_subleading_name:
  "eWc_subleading_discr L ''btagDeepB_1''" "eWc_mujet_discr L ''btagDeepB_0''"
  by (simp_all add: eWc_subleading_discr_def eWc_mujet_discr_def eWc_earlier_branch_def)

lemma demo_process:
  "eWc_process demo_proc (demo_batch es) = Inr (demo_batch es, eWc_output demo_proc (demo_batch es))"
  "eWc_process (demo_proc\<lparr>btv_eval := v\<rparr>) (demo_batch es)
     = Inr (demo_batch es, eWc_output (demo_proc\<lparr>btv_eval := v\<rparr>) (demo_batch es))"
  "tt_process demo_tt_proc (demo_batch es)
     = Inr (tt_select_objects demo_tt_proc (demo_batch es), tt_output demo_tt_proc (demo_batch es))"
  by (simp_all add: eWc_process_cases tt_process_cases demo_simps)

lemma eWc_subleading_dispatch:
  "eWc_subleading_discr L h \<Longrightarrow>
   eWc_dispatch p L h =
     (if list_all (\<lambda>i. i > 1) (njet L) then
        eWc_discr_fills p L (map (\<lambda>fs. Some (fs ! 1)) (genflavor L))
          (map (\<lambda>js. Some (clip ((js ! 1) (replace ''_1'' [] h)))) (sjets L))
          (disc_variants (disc_list p [smuon_jet L]) (replace ''_1'' [] h) 1)
      else [])"
  by (auto simp: eWc_subleading_discr_def eWc_earlier_branch_def eWc_dispatch_def)

lemma eWc_mujet_dispatch:
  "eWc_mujet_discr L h \<Longrightarrow>
   eWc_dispatch p L h =
     eWc_discr_fills p L (smflav L)
       (map (map_option (\<lambda>j. clip (j (replace ''_0'' [] h)))) (smuon_jet L))
       (disc_variants (disc_list p [smuon_jet L]) (replace ''_0'' [] h) 0)"
  by (auto simp: eWc_mujet_discr_def eWc_earlier_branch_def eWc_dispatch_def)

lemma concat_same_empty:
  "h \<in> set names \<Longrightarrow> (concat (map d (filter (\<lambda>x. x = h) names)) = []) = (d h = [])"
  by (induction names) auto

lemma eWc_subleading_output:
  assumes "eWc_subleading_discr (eWc_selected p b) h"
  shows "o_fills (eWc_output p b) h
         = concat (map (eWc_dispatch p (eWc_selected p b)) (filter (\<lambda>x. x = h) (hist_names p)))"
proof -
  have "contains ''btagDeep'' h"
    using assms by (simp add: eWc_subleading_discr_def)
  then show ?thesis
    by (simp add: eWc_output_fills eWc_named_no_discr)
qed

text \<open>
  Claim C5, as stated: the subleading-jet histogram is skipped for the batch only if no
  event has the required multiplicity, and is filled when at least one has it.  It fails
  on a batch whose two selected events have two jets and one jet: the histogram
  \<open>btagDeepB_1\<close> is declared, one event has a subleading jet, and the histogram receives
  no fill.
\<close>

theorem subleading_skipped_counterexample:
  "eWc_process demo_proc (demo_batch [demo_event2, demo_event1])
     = Inr (demo_batch [demo_event2, demo_event1], eWc_output demo_proc (demo_batch [demo_event2, demo_event1]))
   \<and> njet (eWc_selected demo_proc (demo_batch [demo_event2, demo_event1])) = [2, 1]
   \<and> ''btagDeepB_1'' \<in> set (hist_names demo_proc)
   \<and> eWc_subleading_discr (eWc_selected demo_proc (demo_batch [demo_event2, demo_event1])) ''btagDeepB_1''
   \<and> o_fills (eWc_output demo_proc (demo_batch [demo_event2, demo_event1])) ''btagDeepB_1'' = []"
  by (simp add: demo_process demo_njet demo_subleading_name eWc_subleading_output
      eWc_subleading_dispatch demo_simps)

text \<open>
  Claim C5, amended.  A histogram that the eWc dispatcher sends to its subleading-jet
  branch is skipped for the whole batch exactly when some selected event has fewer than
  two selected jets, and it is filled exactly when every selected event has at least two
  (also when no event is selected).  The jet counts of the guard are those of the events
  that pass the mask.
\<close>

theorem subleading_guard:
  "(eWc_subleading_discr L h \<longrightarrow>
      (eWc_dispatch p L h = []) = (\<not> list_all (\<lambda>i. i > 1) (njet L)))
   \<and> njet (eWc_selected p b)
       = map (\<lambda>e. length (eWc_event_jet p e))
           (filter (eWc_accept p (isRealData b) (HLT_fields b)) (evs b))
   \<and> (eWc_subleading_discr (eWc_selected p b) h \<and> h \<in> set (hist_names p) \<longrightarrow>
      (o_fills (eWc_output p b) h = []) = (\<not> eWc_guard p b))"
proof (intro conjI impI)
  assume "eWc_subleading_discr L h"
  then show "(eWc_dispatch p L h = []) = (\<not> list_all (\<lambda>i. i > 1) (njet L))"
    by (simp add: eWc_subleading_dispatch eWc_discr_fills_def)
next
  show "njet (eWc_selected p b)
       = map (\<lambda>e. length (eWc_event_jet p e))
           (filter (eWc_accept p (isRealData b) (HLT_fields b)) (evs b))"
    by (simp add: eWc_selected_rows Let_def)
next
  assume a: "eWc_subleading_discr (eWc_selected p b) h \<and> h \<in> set (hist_names p)"
  then have "(o_fills (eWc_output p b) h = []) = (eWc_dispatch p (eWc_selected p b) h = [])"
    by (simp add: eWc_subleading_output concat_same_empty)
  also have "\<dots> = (\<not> eWc_guard p b)"
    using a by (simp add: eWc_subleading_dispatch eWc_discr_fills_def eWc_guard_def)
  finally show "(o_fills (eWc_output p b) h = []) = (\<not> eWc_guard p b)" .
qed

theorem subleading_guard_witness:
  "eWc_guard demo_proc (demo_batch [demo_event2])
   \<and> o_fills (eWc_output demo_proc (demo_batch [demo_event2])) ''btagDeepB_1'' \<noteq> []
   \<and> \<not> eWc_guard demo_proc (demo_batch [demo_event2, demo_event1])
   \<and> eWc_dispatch demo_proc (eWc_selected demo_proc (demo_batch [demo_event2, demo_event1])) ''btagDeepB_1'' = []"
proof -
  have n: "''btagDeepB_1'' \<in> set (hist_names demo_proc)"
    by (simp add: demo_simps)
  show ?thesis
    using subleading_guard[of "eWc_selected demo_proc (demo_batch [demo_event2, demo_event1])"
        "''btagDeepB_1''" demo_proc "demo_batch [demo_event2]"]
      demo_subleading_name(1) n
    by (simp add: eWc_guard_def demo_njet demo_simps demo_eWc_accept demo_eWc_objects)
qed

section \<open>Fills of per-jet quantities\<close>

lemma map2_entries:
  "map2 (\<lambda>x (v, w). (x, s, v, w)) (map F xs) (zip (map G xs) (map H xs))
   = map (\<lambda>j. (F j, s, G j, H j)) xs"
  by (simp add: list_eq_iff_nth_eq)

lemma jet_entries_rows:
  "fc_entries (fill2 (map Some (concat (map (\<lambda>e. map fl (J e)) S)))
                     (map Some (concat (map (\<lambda>e. map g (J e)) S)))
                     (concat (ak_broadcast (map W S) (map (\<lambda>e. map f (J e)) S))))
   = concat (map (\<lambda>e. map (\<lambda>j. (Some (fl j), None, Some (g j), W e)) (J e)) S)"
proof (induction S)
  case Nil
  then show ?case by (simp add: fc_entries_def fill2_def ak_broadcast_def)
next
  case (Cons a S)
  from Cons show ?case
    by (simp add: fc_entries_def fill2_def ak_broadcast_def map2_entries)
qed

lemma eWc_w_rows:
  "eWc_w (eWc_selected p b)
   = map (\<lambda>e. ak_lift2 (*) (Some (eWc_evweight p (isRealData b) e))
                 (ak_lift2 (\<lambda>l m. l ''charge'' * m ''charge'' * - 1)
                    (eWc_iso_ele p e) (ak_firsts (eWc_soft_muon p e))))
       (filter (eWc_accept p (isRealData b) (HLT_fields b)) (evs b))"
  by (simp add: eWc_w_def times_col_def eWc_selected_rows Let_def zip_map_map zip_same_conv_map comp_def)

lemma tt_w_rows:
  "tt_w (tt_selected p b)
   = map (\<lambda>e. Some (tt_evweight p (isRealData b) e))
       (filter (tt_accept p (isRealData b) (HLT_fields b)) (map (tt_select_event p) (evs b)))"
  by (simp add: tt_w_def tt_selected_rows Let_def comp_def)

lemma flatten_all_Some: "list_all (\<lambda>x. x \<noteq> None) xs \<Longrightarrow> map Some (flatten xs) = xs"
  by (induction xs) (auto simp: flatten_def map_filter_simps)



lemma broadcast_all_Some:
  "list_all (\<lambda>w. w \<noteq> None) ws \<Longrightarrow> list_all (\<lambda>w. w \<noteq> None) (concat (ak_broadcast ws xss))"
  by (induction ws arbitrary: xss) (auto simp: ak_broadcast_def list_all_iff dest!: set_zip_leftD)

text \<open>An event that passes the eWc mask has its isolated electron, its first soft muon
  and its first muon jet.\<close>

lemma ak_lift2_Some: "ak_lift2 f a b = Some c \<Longrightarrow> \<exists>x y. a = Some x \<and> b = Some y"
  by (auto simp: ak_lift2_def split: option.splits)

lemma eWc_accept_objects:
  assumes "eWc_accept p rd hf e"
  shows "\<exists>l m j. eWc_iso_ele p e = Some l \<and> ak_firsts (eWc_soft_muon p e) = Some m
                 \<and> ak_firsts (eWc_mu_jet p e) = Some j"
proof -
  from assms have "eWc_req_QCDveto p e = Some True" and "eWc_req_pTratio p e = Some True"
    by (simp_all add: eWc_accept_def)
  then show ?thesis
    unfolding eWc_req_QCDveto_def eWc_req_pTratio_def
    by (auto dest!: ak_lift2_Some)
qed

lemma eWc_w_all_Some: "list_all (\<lambda>w. w \<noteq> None) (eWc_w (eWc_selected p b))"
  unfolding eWc_w_rows list_all_iff
  by (auto simp: ak_lift2_def dest!: eWc_accept_objects)

lemma eWc_jet_fill_plain:
  "eWc_jet_fill (eWc_selected p b) field
   = fill2 (map Some (concat (genflavor (eWc_selected p b))))
           (map Some (concat (map (map (\<lambda>j. j field)) (sjets (eWc_selected p b)))))
           (concat (ak_broadcast (eWc_w (eWc_selected p b)) (map (map (\<lambda>j. j ''pt'')) (sjets (eWc_selected p b)))))"
  by (simp only: eWc_jet_fill_def flatten_all_Some[OF broadcast_all_Some[OF eWc_w_all_Some]])

lemma eWc_jet_fill_entries:
  "fc_entries (eWc_jet_fill (eWc_selected p b) field)
   = concat (map2 (\<lambda>w js. map (\<lambda>j. (Some ((if isRealData b then (\<lambda>_. 0) else flavour) j), None,
                                         Some (j field), w)) js)
               (eWc_w (eWc_selected p b)) (sjets (eWc_selected p b)))"
proof -
  have "fc_entries (eWc_jet_fill (eWc_selected p b) field)
        = concat (map (\<lambda>e. map (\<lambda>j. (Some ((if isRealData b then (\<lambda>_. 0) else flavour) j), None,
                                         Some (j field),
                                         ak_lift2 (*) (Some (eWc_evweight p (isRealData b) e))
                                           (ak_lift2 (\<lambda>l m. l ''charge'' * m ''charge'' * - 1)
                                             (eWc_iso_ele p e) (ak_firsts (eWc_soft_muon p e)))))
                                (eWc_event_jet p e))
                    (filter (eWc_accept p (isRealData b) (HLT_fields b)) (evs b)))"
    unfolding eWc_jet_fill_plain eWc_w_rows
    by (simp add: eWc_selected_rows Let_def comp_def jet_entries_rows)
  also have "\<dots> = concat (map2 (\<lambda>w js. map (\<lambda>j. (Some ((if isRealData b then (\<lambda>_. 0) else flavour) j), None,
                                         Some (j field), w)) js)
               (eWc_w (eWc_selected p b)) (sjets (eWc_selected p b)))"
    unfolding eWc_w_rows
    by (simp add: eWc_selected_rows Let_def zip_map_map zip_same_conv_map comp_def)
  finally show ?thesis .
qed

lemma tt_jet_fill_entries:
  "fc_entries (tt_jet_fill (tt_selected p b) field)
   = concat (map2 (\<lambda>w js. map (\<lambda>j. (Some ((if isRealData b then (\<lambda>_. 0) else flavour) j), None,
                                         Some (j field), w)) js)
               (tt_w (tt_selected p b)) (tt_sjets (tt_selected p b)))"
proof -
  have "fc_entries (tt_jet_fill (tt_selected p b) field)
        = concat (map (\<lambda>e. map (\<lambda>j. (Some ((if isRealData b then (\<lambda>_. 0) else flavour) j), None,
                                         Some (j field), Some (tt_evweight p (isRealData b) e)))
                                (take 2 (tt_event_jet p e)))
                    (filter (tt_accept p (isRealData b) (HLT_fields b)) (map (tt_select_event p) (evs b))))"
    unfolding tt_jet_fill_def tt_w_rows
    by (simp add: tt_selected_rows Let_def comp_def jet_entries_rows)
  also have "\<dots> = concat (map2 (\<lambda>w js. map (\<lambda>j. (Some ((if isRealData b then (\<lambda>_. 0) else flavour) j), None,
                                         Some (j field), w)) js)
               (tt_w (tt_selected p b)) (tt_sjets (tt_selected p b)))"
    unfolding tt_w_rows
    by (simp add: tt_selected_rows Let_def zip_map_map zip_same_conv_map comp_def)
  finally show ?thesis .
qed

lemma demo_eWc_w:
  "eWc_w (eWc_selected demo_proc (demo_batch [demo_event2, demo_event1])) = [Some 2, Some 2]"
  "eWc_w (eWc_selected demo_proc (demo_batch [demo_event2])) = [Some 2]"
  "eWc_w (eWc_selected demo_proc (demo_batch [demo_event1])) = [Some 2]"
  by (simp_all add: eWc_w_rows demo_simps demo_eWc_accept demo_eWc_objects eWc_evweight_def
      ak_lift2_def ak_firsts_def)

lemma demo_sjets:
  "sjets (eWc_selected demo_proc (demo_batch [demo_event2, demo_event1])) = [[demo_jet, demo_jet], [demo_jet]]"
  "sjets (eWc_selected demo_proc (demo_batch [demo_event2])) = [[demo_jet, demo_jet]]"
  "sjets (eWc_selected demo_proc (demo_batch [demo_event1])) = [[demo_jet]]"
  by (simp_all add: eWc_sjets_rows demo_simps demo_eWc_accept demo_eWc_objects)

text \<open>
  Claim C8.  The histograms of a per-jet quantity (a name with \<open>Deep\<close> and without
  \<open>btag\<close> in both workflows, a name with \<open>jet_\<close> and without \<open>mu\<close> in eWc) receive one
  fill whose entries are, event by event and jet by jet, the flavour and the value of
  the jet with the weight of the jet's event: the per-event weight column is broadcast
  to the jets.  The weight column has one entry per selected event, none of them missing.
\<close>

theorem jet_weight_broadcast:
  "(contains ''Deep'' h \<and> \<not> contains ''btag'' h \<longrightarrow>
      eWc_dispatch p L h = [eWc_jet_fill L h] \<and> tt_dispatch p T gf sj h = [tt_jet_fill T h])
   \<and> (\<not> contains ''Deep'' h \<and> contains ''jet_'' h \<and> \<not> contains ''mu'' h \<longrightarrow>
      eWc_dispatch p L h = [eWc_jet_fill L (replace ''jet_'' [] h)])
   \<and> fc_entries (eWc_jet_fill (eWc_selected p b) field)
       = concat (map2 (\<lambda>w js. map (\<lambda>j. (Some ((if isRealData b then (\<lambda>_. 0) else flavour) j), None,
                                             Some (j field), w)) js)
                   (eWc_w (eWc_selected p b)) (sjets (eWc_selected p b)))
   \<and> length (eWc_w (eWc_selected p b)) = length (sjets (eWc_selected p b))
   \<and> list_all (\<lambda>w. w \<noteq> None) (eWc_w (eWc_selected p b))
   \<and> fc_entries (tt_jet_fill (tt_selected p b) field)
       = concat (map2 (\<lambda>w js. map (\<lambda>j. (Some ((if isRealData b then (\<lambda>_. 0) else flavour) j), None,
                                             Some (j field), w)) js)
                   (tt_w (tt_selected p b)) (tt_sjets (tt_selected p b)))
   \<and> length (tt_w (tt_selected p b)) = length (tt_sjets (tt_selected p b))"
proof (intro conjI impI)
  show "list_all (\<lambda>w. w \<noteq> None) (eWc_w (eWc_selected p b))"
    by (rule eWc_w_all_Some)
  show "length (eWc_w (eWc_selected p b)) = length (sjets (eWc_selected p b))"
    by (simp add: eWc_w_rows eWc_sjets_rows)
  show "length (tt_w (tt_selected p b)) = length (tt_sjets (tt_selected p b))"
    by (simp add: tt_w_rows tt_sjets_rows)
qed (simp_all add: eWc_dispatch_def tt_dispatch_def eWc_jet_fill_entries tt_jet_fill_entries)

theorem jet_weight_broadcast_witness:
  "eWc_dispatch demo_proc (eWc_selected demo_proc (demo_batch [demo_event2, demo_event1])) ''jet_pt''
     = [eWc_jet_fill (eWc_selected demo_proc (demo_batch [demo_event2, demo_event1])) ''pt'']
   \<and> fc_entries (eWc_jet_fill (eWc_selected demo_proc (demo_batch [demo_event2, demo_event1])) ''pt'')
     = [(Some 1, None, Some 50, Some 2), (Some 1, None, Some 50, Some 2), (Some 1, None, Some 50, Some 2)]"
proof -
  have h: "\<not> contains ''Deep'' ''jet_pt'' \<and> contains ''jet_'' ''jet_pt'' \<and> \<not> contains ''mu'' ''jet_pt''"
    by simp
  have r: "replace ''jet_'' [] ''jet_pt'' = ''pt''"
    by (simp add: replace_def)
  show ?thesis
    using jet_weight_broadcast[where h = "''jet_pt''" and p = demo_proc
        and L = "eWc_selected demo_proc (demo_batch [demo_event2, demo_event1])"
        and b = "demo_batch [demo_event2, demo_event1]" and field = "''pt''"] h
    by (simp add: r demo_eWc_w demo_sjets demo_simps flavour_def)
qed

section \<open>Fills of the discriminant histograms\<close>

lemma times_col_swap: "times_col (times_col a b) c = times_col (times_col a c) b"
  by (auto simp: times_col_def list_eq_iff_nth_eq ak_lift2_def split: option.splits)

lemma eWc_w_sf_eq: "eWc_w_sf L sf = times_col (eWc_w L) sf"
  by (simp add: eWc_w_sf_def eWc_w_def times_col_swap)

lemma tt_w_sf_eq: "tt_w_sf T sf = times_col (tt_w T) sf"
  by (simp add: tt_w_sf_def tt_w_def)

lemma tt_discr_dispatch:
  "contains ''btagDeep'' h \<Longrightarrow>
   tt_dispatch p T gf sj h =
     concat (map (\<lambda>i.
       if contains (str i) h then
         tt_discr_fills p T (map Some (gf ! i))
           (map (\<lambda>j. Some (clip (j (replace (''_'' @ str i) [] h)))) (sj ! i))
           (disc_variants (disc_list p (map (map Some) sj)) (replace (''_'' @ str i) [] h) i)
       else []) [0, 1])"
  using contains_btag[of h] by (simp add: tt_dispatch_def)

lemma disc_list_keys:
  "map fst (disc_list p cols)
   = [''btagDeepB'', ''btagDeepC'', ''btagDeepFlavB'', ''btagDeepFlavC'',
      ''btagDeepCvL'', ''btagDeepCvB'', ''btagDeepFlavCvL'', ''btagDeepFlavCvB'']"
  by (simp add: disc_list_def)

lemma disc_variants_keys:
  "disc_variants (disc_list p cols) ''btagDeepB'' i = sfs_at (csvsfs_b p) cols i"
  "disc_variants (disc_list p cols) ''btagDeepC'' i = sfs_at (csvsfs_b p) cols i"
  "disc_variants (disc_list p cols) ''btagDeepFlavB'' i = sfs_at (jetsfs_b p) cols i"
  "disc_variants (disc_list p cols) ''btagDeepFlavC'' i = sfs_at (jetsfs_b p) cols i"
  "disc_variants (disc_list p cols) ''btagDeepCvL'' i = sfs_at (csvsfs_c p) cols i"
  "disc_variants (disc_list p cols) ''btagDeepCvB'' i = sfs_at (csvsfs_c p) cols i"
  "disc_variants (disc_list p cols) ''btagDeepFlavCvL'' i = sfs_at (jetsfs_c p) cols i"
  "disc_variants (disc_list p cols) ''btagDeepFlavCvB'' i = sfs_at (jetsfs_c p) cols i"
  by (simp_all add: disc_variants_def disc_list_def)

lemma disc_variants_names:
  assumes "name \<in> set (map fst (disc_list p cols))" and "i < length cols"
  shows "map fst (disc_variants (disc_list p cols) name i) = [''SF'', ''SFup'', ''SFdn'']
         \<or> map fst (disc_variants (disc_list p cols) name i) = [''SFup'', ''SF'', ''SFdn'']"
  using assms unfolding disc_list_keys
  by (auto simp: disc_variants_keys sfs_at_def jetsfs_c_def jetsfs_b_def csvsfs_c_def csvsfs_b_def)

lemma disc_variants_lengths:
  assumes "i < length cols"
  shows "list_all (\<lambda>v. length (snd v) = length (cols ! i)) (disc_variants (disc_list p cols) name i)"
proof (cases "name \<in> set (map fst (disc_list p cols))")
  case True
  then show ?thesis
    using assms unfolding disc_list_keys
    by (auto simp: disc_variants_keys sfs_at_def jetsfs_c_def jetsfs_b_def csvsfs_c_def csvsfs_b_def)
next
  case False
  then have "map_of (disc_list p cols) name = None"
    by (simp add: map_of_eq_None_iff)
  then show ?thesis
    by (simp add: disc_variants_def)
qed

lemma disc_variants_beyond: "length cols \<le> i \<Longrightarrow> disc_variants (disc_list p cols) name i = []"
proof (cases "name \<in> set (map fst (disc_list p cols))")
  case True
  assume "length cols \<le> i"
  with True show ?thesis
    unfolding disc_list_keys by (auto simp: disc_variants_keys sfs_at_def)
next
  case False
  then have "map_of (disc_list p cols) name = None"
    by (simp add: map_of_eq_None_iff)
  then show ?thesis
    by (simp add: disc_variants_def)
qed

lemma demo_smuon_jet:
  "smuon_jet (eWc_selected demo_proc (demo_batch [demo_event2, demo_event1])) = [Some demo_jet, Some demo_jet]"
  "smuon_jet (eWc_selected demo_proc (demo_batch [demo_event2])) = [Some demo_jet]"
  "smuon_jet (eWc_selected demo_proc (demo_batch [demo_event1])) = [Some demo_jet]"
  by (simp_all add: eWc_selected_rows Let_def demo_simps demo_eWc_accept demo_eWc_objects ak_firsts_def)

lemma demo_replace:
  "replace ''_1'' [] ''btagDeepB_1'' = ''btagDeepB''" "replace ''_0'' [] ''btagDeepB_0'' = ''btagDeepB''"
  by (simp_all add: replace_def)

text \<open>
  Claim C7, as stated: every discriminant histogram of simulated data with corrections
  enabled receives the nominal fill and one fill per systematic variant.  It fails for
  the subleading-jet discriminant histograms of the eWc workflow: scale factors are
  resolved for the muon jet only (index 0), the dictionary of index 1 is empty, and the
  histogram \<open>btagDeepB_1\<close> of a simulated batch with corrections enabled receives the
  \<open>noSF\<close> fill alone.
\<close>

theorem subleading_variants_counterexample:
  "has_genWeight (demo_batch [demo_event2]) \<and> isCorr demo_proc
   \<and> ''btagDeepB_1'' \<in> set (hist_names demo_proc)
   \<and> eWc_process demo_proc (demo_batch [demo_event2])
       = Inr (demo_batch [demo_event2], eWc_output demo_proc (demo_batch [demo_event2]))
   \<and> eWc_guard demo_proc (demo_batch [demo_event2])
   \<and> map fc_syst (o_fills (eWc_output demo_proc (demo_batch [demo_event2])) ''btagDeepB_1'')
       = [Some ''noSF'']"
  by (simp add: demo_process demo_simps eWc_guard_def demo_njet
      eWc_subleading_output[OF demo_subleading_name(1)]
      eWc_subleading_dispatch[OF demo_subleading_name(1)]
      demo_replace disc_variants_beyond eWc_discr_fills_def fill3_def)

text \<open>
  Claim C7, amended.  For every discriminant histogram of the ttdilep workflow and every
  muon-jet discriminant histogram (index 0) of the eWc workflow, the dispatcher makes one
  fill labelled \<open>noSF\<close> with the per-event weight (in eWc the weight times the charge
  factor \<open>osss\<close>); for simulated data with corrections enabled it makes in addition one
  fill for every variant of the histogram's discriminant in \<open>disc_list\<close>, labelled by
  the variant and weighted by the per-event weight times the variant's scale factor, and
  otherwise no other fill.  The variants of a discriminant of \<open>disc_list\<close> at a resolved
  jet index are \<open>SF\<close>, \<open>SFup\<close> and \<open>SFdn\<close>, each with one scale factor per jet of the
  column.
\<close>

theorem discriminant_variants:
  "(eWc_mujet_discr L h \<longrightarrow>
      map (\<lambda>c. (fc_syst c, fc_weight c)) (eWc_dispatch p L h)
      = (Some ''noSF'', eWc_w L) #
        (if \<not> real_data L \<and> isCorr p
         then map (\<lambda>v. (Some (fst v), times_col (eWc_w L) (snd v)))
                (disc_variants (disc_list p [smuon_jet L]) (replace ''_0'' [] h) 0)
         else []))
   \<and> (contains ''btagDeep'' h \<longrightarrow>
      map (\<lambda>c. (fc_syst c, fc_weight c)) (tt_dispatch p T gf sj h)
      = concat (map (\<lambda>i.
          if contains (str i) h then
            (Some ''noSF'', tt_w T) #
            (if \<not> tt_real_data T \<and> isCorr p
             then map (\<lambda>v. (Some (fst v), times_col (tt_w T) (snd v)))
                    (disc_variants (disc_list p (map (map Some) sj)) (replace (''_'' @ str i) [] h) i)
             else [])
          else []) [0, 1]))
   \<and> (name \<in> set (map fst (disc_list p cols)) \<and> i < length cols \<longrightarrow>
      (map fst (disc_variants (disc_list p cols) name i) = [''SF'', ''SFup'', ''SFdn'']
       \<or> map fst (disc_variants (disc_list p cols) name i) = [''SFup'', ''SF'', ''SFdn''])
      \<and> list_all (\<lambda>v. length (snd v) = length (cols ! i)) (disc_variants (disc_list p cols) name i))"
proof (intro conjI impI)
  assume "eWc_mujet_discr L h"
  then show "map (\<lambda>c. (fc_syst c, fc_weight c)) (eWc_dispatch p L h)
      = (Some ''noSF'', eWc_w L) #
        (if \<not> real_data L \<and> isCorr p
         then map (\<lambda>v. (Some (fst v), times_col (eWc_w L) (snd v)))
                (disc_variants (disc_list p [smuon_jet L]) (replace ''_0'' [] h) 0)
         else [])"
    by (simp add: eWc_mujet_dispatch eWc_discr_fills_def fill3_def eWc_w_sf_eq comp_def)
next
  assume "contains ''btagDeep'' h"
  then show "map (\<lambda>c. (fc_syst c, fc_weight c)) (tt_dispatch p T gf sj h)
      = concat (map (\<lambda>i.
          if contains (str i) h then
            (Some ''noSF'', tt_w T) #
            (if \<not> tt_real_data T \<and> isCorr p
             then map (\<lambda>v. (Some (fst v), times_col (tt_w T) (snd v)))
                    (disc_variants (disc_list p (map (map Some) sj)) (replace (''_'' @ str i) [] h) i)
             else [])
          else []) [0, 1])"
    by (simp add: tt_discr_dispatch tt_discr_fills_def fill3_def tt_w_sf_eq comp_def)
next
  assume a: "name \<in> set (map fst (disc_list p cols)) \<and> i < length cols"
  then show "map fst (disc_variants (disc_list p cols) name i) = [''SF'', ''SFup'', ''SFdn'']
       \<or> map fst (disc_variants (disc_list p cols) name i) = [''SFup'', ''SF'', ''SFdn'']"
    using disc_variants_names[of name p cols i] by blast
  from a show "list_all (\<lambda>v. length (snd v) = length (cols ! i)) (disc_variants (disc_list p cols) name i)"
    using disc_variants_lengths[of i cols p name] by blast
qed

theorem discriminant_variants_witness:
  "map (\<lambda>c. (fc_syst c, fc_weight c))
     (eWc_dispatch demo_proc (eWc_selected demo_proc (demo_batch [demo_event2])) ''btagDeepB_0'')
   = [(Some ''noSF'', [Some 2]), (Some ''SFup'', [Some 4]), (Some ''SF'', [Some 4]), (Some ''SFdn'', [Some 4])]
   \<and> map fst (disc_variants (disc_list demo_proc [[Some demo_jet]]) ''btagDeepB'' 0) = [''SFup'', ''SF'', ''SFdn'']"
proof -
  have n: "''btagDeepB'' \<in> set (map fst (disc_list demo_proc [[Some demo_jet]])) \<and> 0 < length [[Some demo_jet]]"
    by (simp add: disc_list_keys)
  have r: "\<not> real_data (eWc_selected demo_proc (demo_batch [demo_event2]))"
    by (simp add: selected_real_data demo_simps)
  show ?thesis
    using discriminant_variants[where L = "eWc_selected demo_proc (demo_batch [demo_event2])"
        and h = "''btagDeepB_0''" and p = demo_proc and name = "''btagDeepB''"
        and cols = "[[Some demo_jet]]" and i = 0] demo_subleading_name(2) n r
    by (simp add: demo_replace demo_eWc_w demo_smuon_jet demo_simps disc_variants_keys sfs_at_def
        csvsfs_b_def sf_b_def times_col_def ak_lift2_def)
qed



section \<open>Outputs in terms of rows\<close>






section \<open>Sums over the calls of a histogram\<close>











lemma hist_sum_fill1_append:
  "length vs = length ws \<Longrightarrow>
   hist_sum p n g [fill1 (vs @ vs') (ws @ ws')] bin
   = hist_sum p n g [fill1 vs ws] bin + hist_sum p n g [fill1 vs' ws'] bin"
  by (simp add: hist_sum_def fc_entries_def fill1_def)

section \<open>One more selected event\<close>



lemma tt_rows_consts [simp]:
  "tt_real_data (tt_rows p rd ef mf S) = rd"
  "smu_fields (tt_rows p rd ef mf S) = mf"
  "sel_fields (tt_rows p rd ef mf S) = ef"
  by (simp_all add: tt_rows_def)

lemma tt_rows_lengths [simp]:
  "length (tt_sweight (tt_rows p rd ef mf S)) = length S"
  "length (tt_sjets (tt_rows p rd ef mf S)) = length S"
  "length (tt_genflavor (tt_rows p rd ef mf S)) = length S"
  "length (smu (tt_rows p rd ef mf S)) = length S"
  "length (sel (tt_rows p rd ef mf S)) = length S"
  by (simp_all add: tt_rows_def)





lemma tt_cols_lengths [simp]:
  "length (tt_gf T) = 2" "length (tt_sj T) = 2"
  by (simp_all add: tt_gf_def tt_sj_def)


















section \<open>One more selected event, eWc workflow\<close>

lemma eWc_rows_consts [simp]:
  "real_data (eWc_rows p rd ef mf S) = rd"
  "shmu_fields (eWc_rows p rd ef mf S) = ef"
  "ssmu_fields (eWc_rows p rd ef mf S) = mf"
  by (simp_all add: eWc_rows_def)










section \<open>Concatenated batches\<close>





















end
